theory Spec2Isabelle
  imports Main "HOL-Library.Char_ord" "HOL-Library.List_Lexorder" "HOL-Library.Multiset"
begin

section \<open>JavaScript strings and truthiness\<close>

text \<open>
  A JavaScript string is modelled as a \<^typ>\<open>string\<close>: a list of code units. The
  comparison operators of JavaScript on two strings are the lexicographic order on
  code units, which is the order of \<^typ>\<open>string\<close> here. Characters outside ASCII
  in string literals of the program are written as their UTF-8 bytes. A value that
  may be \<^verbatim>\<open>null\<close> or \<^verbatim>\<open>undefined\<close> is an option.

  Two methods of strings follow the tables of Unicode: \<^verbatim>\<open>toLowerCase\<close> and
  \<^verbatim>\<open>trim\<close>. They are not defined here: the functions that call them take them as
  a parameter, and every property holds whatever they are. The examples use the two
  functions below, which are those methods on the strings of ASCII.
\<close>

definition newline :: char where
  "newline = CHR 0x0A"

definition tab :: char where
  "tab = CHR 0x09"

text \<open>\<^verbatim>\<open>s.split(sep)\<close> for a separator of one character: never the empty list.\<close>

fun splitAcc :: "char \<Rightarrow> string \<Rightarrow> string \<Rightarrow> string list" where
  "splitAcc sep acc [] = [rev acc]"
| "splitAcc sep acc (x # xs) =
     (if x = sep then rev acc # splitAcc sep [] xs else splitAcc sep (x # acc) xs)"

definition str_split :: "char \<Rightarrow> string \<Rightarrow> string list" where
  "str_split sep s = splitAcc sep [] s"

text \<open>\<^verbatim>\<open>parts.join(sep)\<close>.\<close>

fun str_join :: "string \<Rightarrow> string list \<Rightarrow> string" where
  "str_join sep [] = []"
| "str_join sep [p] = p"
| "str_join sep (p # q # ps) = p @ sep @ str_join sep (q # ps)"

text \<open>\<^verbatim>\<open>x || dflt\<close> on a string that may be missing: the empty string is falsy.\<close>

definition orElse :: "string option \<Rightarrow> string \<Rightarrow> string" where
  "orElse x dflt = (case x of None \<Rightarrow> dflt | Some s \<Rightarrow> if s = [] then dflt else s)"

text \<open>\<^verbatim>\<open>x?.slice(0, 10) || ''\<close>.\<close>

definition day :: "string option \<Rightarrow> string" where
  "day x = (case x of None \<Rightarrow> [] | Some s \<Rightarrow> take 10 s)"

text \<open>\<^verbatim>\<open>x >= since\<close> where \<^verbatim>\<open>x\<close> may be \<^verbatim>\<open>null\<close>: false then, \<^verbatim>\<open>since\<close> being
  an ISO timestamp.\<close>

definition geSince :: "string option \<Rightarrow> string \<Rightarrow> bool" where
  "geSince x since = (case x of None \<Rightarrow> False | Some s \<Rightarrow> since \<le> s)"

text \<open>\<^verbatim>\<open>url?.match(/\/(\d+)$/)?.[1]\<close>: the digits that end the string, when there is at
  least one and a slash stands before them.\<close>

definition isDigit :: "char \<Rightarrow> bool" where
  "isDigit c = (c \<in> set ''0123456789'')"

definition trailingNumber :: "string option \<Rightarrow> string option" where
  "trailingNumber url =
     (case url of
        None \<Rightarrow> None
      | Some s \<Rightarrow>
          (let digits = rev (takeWhile isDigit (rev s));
               ahead = dropWhile isDigit (rev s)
           in if digits \<noteq> [] \<and> ahead \<noteq> [] \<and> hd ahead = CHR ''/'' then Some digits else None))"

text \<open>\<^verbatim>\<open>s.replace(pat, '')\<close> with a string pattern: the first occurrence is removed.\<close>

fun removeFirst :: "string \<Rightarrow> string \<Rightarrow> string" where
  "removeFirst pat [] = []"
| "removeFirst pat (x # xs) =
     (if take (length pat) (x # xs) = pat then drop (length pat) (x # xs)
      else x # removeFirst pat xs)"

text \<open>A number in a template literal: its decimal digits.\<close>

fun showNat :: "nat \<Rightarrow> string" where
  "showNat n =
     (if n < 10 then [''0123456789'' ! n]
      else showNat (n div 10) @ [''0123456789'' ! (n mod 10)])"

declare showNat.simps [simp del]

text \<open>\<^verbatim>\<open>s.trim()\<close> on a string of ASCII: its white space is removed at both ends.\<close>

definition isAsciiSpace :: "char \<Rightarrow> bool" where
  "isAsciiSpace c = (c \<in> set [CHR '' '', CHR 0x09, CHR 0x0A, CHR 0x0B, CHR 0x0C, CHR 0x0D])"

definition asciiTrim :: "string \<Rightarrow> string" where
  "asciiTrim s = rev (dropWhile isAsciiSpace (rev (dropWhile isAsciiSpace s)))"

text \<open>\<^verbatim>\<open>s.includes(needle)\<close>: \<^verbatim>\<open>needle\<close> occurs in \<^verbatim>\<open>s\<close> as a contiguous piece.\<close>

fun str_includes :: "string \<Rightarrow> string \<Rightarrow> bool" where
  "str_includes [] needle = (needle = [])"
| "str_includes (x # xs) needle = (take (length needle) (x # xs) = needle \<or> str_includes xs needle)"

text \<open>\<^verbatim>\<open>s.toLowerCase()\<close> on a string of ASCII.\<close>

definition asciiLowerChar :: "char \<Rightarrow> char" where
  "asciiLowerChar c =
     (case map_of (zip ''ABCDEFGHIJKLMNOPQRSTUVWXYZ'' ''abcdefghijklmnopqrstuvwxyz'') c of
        None \<Rightarrow> c
      | Some l \<Rightarrow> l)"

definition asciiLowerCase :: "string \<Rightarrow> string" where
  "asciiLowerCase s = map asciiLowerChar s"

text \<open>A string that may be \<^verbatim>\<open>undefined\<close>, in a template literal.\<close>

definition display :: "string option \<Rightarrow> string" where
  "display x = (case x of None \<Rightarrow> ''undefined'' | Some s \<Rightarrow> s)"

text \<open>The characters of the program's literals that are not ASCII, as UTF-8.\<close>

definition emDash :: string where
  "emDash = [CHR 0xE2, CHR 0x80, CHR 0x94]"

definition rightArrow :: string where
  "rightArrow = [CHR 0xE2, CHR 0x86, CHR 0x92]"

definition doubleQuote :: string where
  "doubleQuote = [CHR 0x22]"

section \<open>The records of git-summary.js\<close>

record commit =
  commit_repo :: string
  commit_fullRepo :: string
  commit_author :: "string option"
  commit_branch :: string
  commit_message :: string
  commit_url :: string

record pr =
  pr_repo :: string
  pr_fullRepo :: string
  pr_number :: nat
  pr_title :: string
  pr_author :: string
  pr_state :: string
  pr_createdAt :: string
  pr_mergedAt :: string
  pr_closedAt :: string
  pr_url :: string

record review =
  review_repo :: string
  review_prNumber :: nat
  review_prTitle :: string
  review_reviewer :: string
  review_state :: string

record comment =
  comment_repo :: string
  comment_author :: string
  comment_issueNumber :: string
  comment_body :: string
  comment_createdAt :: string
  comment_isReviewComment :: bool

record issue =
  issue_repo :: string
  issue_number :: nat
  issue_title :: string
  issue_author :: string
  issue_state :: string
  issue_createdAt :: string
  issue_url :: string

record release =
  release_repo :: string
  release_tag :: string
  release_name :: string
  release_author :: string
  release_publishedAt :: string
  release_url :: string

record branchEvent =
  branchEvent_repo :: string
  branchEvent_author :: string
  branchEvent_action :: string
  branchEvent_branch :: string

record memberEvent =
  memberEvent_repo :: string
  memberEvent_member :: string
  memberEvent_action :: string
  memberEvent_actor :: string

text \<open>The object \<^verbatim>\<open>data\<close> of \<^verbatim>\<open>collectGitData\<close>.\<close>

record activity =
  commits :: "commit list"
  prs :: "pr list"
  reviews :: "review list"
  comments :: "comment list"
  issues :: "issue list"
  releases :: "release list"
  branchEvents :: "branchEvent list"
  memberEvents :: "memberEvent list"

section \<open>What the gh command answers\<close>

text \<open>The JSON objects that \<^verbatim>\<open>ghJSON\<close> parses, with the fields the program reads.\<close>

record review_json =
  rj_submittedAt :: string
  rj_state :: string
  rj_author :: "string option"

text \<open>
  A pull request as listed with
  \<^verbatim>\<open>--json number,title,author,state,createdAt,mergedAt,closedAt,reviews\<close>.
  The record is extensible: whatever else a pull request carries (its
  \<^verbatim>\<open>updatedAt\<close>, for one) lives in the extension, which no function below reads.
\<close>

record pr_json =
  pj_number :: nat
  pj_title :: string
  pj_author :: "string option"
  pj_state :: string
  pj_createdAt :: string
  pj_mergedAt :: "string option"
  pj_closedAt :: "string option"
  pj_reviews :: "review_json list"

record pr_json_updated = pr_json +
  pj_updatedAt :: string

record comment_json =
  cj_user :: "string option"
  cj_target_url :: "string option"
  cj_body :: "string option"
  cj_created_at :: string

record issue_json =
  ij_pull_request :: bool
  ij_number :: nat
  ij_title :: string
  ij_user :: "string option"
  ij_state :: string
  ij_created_at :: "string option"
  ij_html_url :: string

record release_json =
  lj_tag_name :: string
  lj_name :: "string option"
  lj_author :: "string option"
  lj_published_at :: "string option"
  lj_html_url :: string

record event_json =
  ej_created_at :: string
  ej_repo_name :: "string option"
  ej_type :: string
  ej_ref_type :: "string option"
  ej_ref :: string
  ej_member :: "string option"
  ej_action :: "string option"
  ej_actor :: "string option"

text \<open>
  The answers of the \<^verbatim>\<open>gh\<close> calls of one run. \<^verbatim>\<open>gh\<close> returns the trimmed output,
  or the empty string when the command fails; \<^verbatim>\<open>ghJSON\<close> returns \<^verbatim>\<open>null\<close>
  (\<^const>\<open>None\<close>) when there is no output or it does not parse.
\<close>

record 'a github =
  gh_orgRepos :: "string \<Rightarrow> string"
  gh_branches :: "string \<Rightarrow> string"
  gh_commits :: "string \<Rightarrow> string \<Rightarrow> string \<Rightarrow> string"
  gh_prList :: "string \<Rightarrow> 'a pr_json_scheme list option"
  gh_issueComments :: "string \<Rightarrow> string \<Rightarrow> comment_json list option"
  gh_pullComments :: "string \<Rightarrow> string \<Rightarrow> comment_json list option"
  gh_issues :: "string \<Rightarrow> string \<Rightarrow> issue_json list option"
  gh_releases :: "string \<Rightarrow> release_json list option"
  gh_orgEvents :: "string \<Rightarrow> event_json list option"

section \<open>collectGitData\<close>

record config =
  org :: string
  extraRepos :: "string list"
  slackWebhookUrl :: "string option"
  authorMap :: "(string \<times> string) list"
  ticketPattern :: string
  llmCommand :: "string option"

text \<open>\<^verbatim>\<open>fullRepo.split('/').pop()\<close>.\<close>

definition repoName :: "string \<Rightarrow> string" where
  "repoName fullRepo = last (str_split (CHR ''/'') fullRepo)"

subsection \<open>1. Commits from all branches, deduplicated by SHA\<close>

text \<open>
  \<^verbatim>\<open>const [sha, author, ...msgParts] = line.split('\t')\<close> and
  \<^verbatim>\<open>msgParts.join('\t')\<close>: the SHA, the author (\<^verbatim>\<open>undefined\<close> when the line has
  no tab) and the message.
\<close>

definition commitFields :: "string \<Rightarrow> string \<times> string option \<times> string" where
  "commitFields line =
     (case str_split tab line of
        [] \<Rightarrow> ([], None, [])
      | sha # rest \<Rightarrow>
          (sha, (case rest of [] \<Rightarrow> None | a # _ \<Rightarrow> Some a), str_join [tab] (tl rest)))"

definition lineSha :: "string \<Rightarrow> string" where
  "lineSha line = fst (commitFields line)"

text \<open>The object pushed to \<^verbatim>\<open>data.commits\<close> for a line of a branch listing.\<close>

definition commitOf :: "string \<Rightarrow> string \<Rightarrow> string \<Rightarrow> commit" where
  "commitOf fullRepo branch line =
     (case commitFields line of
        (sha, author, message) \<Rightarrow>
          \<lparr>commit_repo = repoName fullRepo,
           commit_fullRepo = fullRepo,
           commit_author = author,
           commit_branch = branch,
           commit_message = message,
           commit_url = ''https://github.com/'' @ fullRepo @ ''/commit/'' @ sha\<rparr>)"

text \<open>
  The loop over the lines of one listing. The state is \<^verbatim>\<open>seenSHAs\<close> and
  \<^verbatim>\<open>data.commits\<close>.
\<close>

fun commitLines ::
  "string \<Rightarrow> string \<Rightarrow> string list \<Rightarrow> string set \<times> commit list \<Rightarrow> string set \<times> commit list"
where
  "commitLines fullRepo branch [] st = st"
| "commitLines fullRepo branch (line # rest) (seenSHAs, cs) =
     (if line = [] then commitLines fullRepo branch rest (seenSHAs, cs)
      else if lineSha line = [] \<or> lineSha line \<in> seenSHAs
        then commitLines fullRepo branch rest (seenSHAs, cs)
      else commitLines fullRepo branch rest
             (insert (lineSha line) seenSHAs, cs @ [commitOf fullRepo branch line]))"

text \<open>The loop over the branches of one repository.\<close>

fun commitBranches ::
  "'a github \<Rightarrow> string \<Rightarrow> string \<Rightarrow> string list \<Rightarrow> string set \<times> commit list
     \<Rightarrow> string set \<times> commit list"
where
  "commitBranches w since fullRepo [] st = st"
| "commitBranches w since fullRepo (branch # rest) st =
     (if gh_commits w fullRepo since branch = [] then commitBranches w since fullRepo rest st
      else commitBranches w since fullRepo rest
             (commitLines fullRepo branch
                (str_split newline (gh_commits w fullRepo since branch)) st))"

subsection \<open>2. PRs with reviews (created, merged, or closed in window)\<close>

definition truthy :: "string option \<Rightarrow> bool" where
  "truthy x = (case x of None \<Rightarrow> False | Some s \<Rightarrow> s \<noteq> [])"

definition inWindow :: "string \<Rightarrow> 'a pr_json_scheme \<Rightarrow> bool" where
  "inWindow since p =
     (since \<le> pj_createdAt p
      \<or> (truthy (pj_mergedAt p) \<and> geSince (pj_mergedAt p) since)
      \<or> (truthy (pj_closedAt p) \<and> geSince (pj_closedAt p) since))"

definition prOf :: "string \<Rightarrow> 'a pr_json_scheme \<Rightarrow> pr" where
  "prOf fullRepo p =
     \<lparr>pr_repo = repoName fullRepo,
      pr_fullRepo = fullRepo,
      pr_number = pj_number p,
      pr_title = pj_title p,
      pr_author = orElse (pj_author p) ''unknown'',
      pr_state = pj_state p,
      pr_createdAt = take 10 (pj_createdAt p),
      pr_mergedAt = day (pj_mergedAt p),
      pr_closedAt = day (pj_closedAt p),
      pr_url = ''https://github.com/'' @ fullRepo @ ''/pull/'' @ showNat (pj_number p)\<rparr>"

text \<open>The reviews of a pull request submitted in the window and not pending.\<close>

definition reviewOf :: "string \<Rightarrow> 'a pr_json_scheme \<Rightarrow> review_json \<Rightarrow> review" where
  "reviewOf fullRepo p r =
     \<lparr>review_repo = repoName fullRepo,
      review_prNumber = pj_number p,
      review_prTitle = pj_title p,
      review_reviewer = orElse (rj_author r) ''unknown'',
      review_state = rj_state r\<rparr>"

fun scanReviews ::
  "string \<Rightarrow> string \<Rightarrow> 'a pr_json_scheme \<Rightarrow> review_json list \<Rightarrow> review list \<Rightarrow> review list"
where
  "scanReviews since fullRepo p [] rs = rs"
| "scanReviews since fullRepo p (r # rest) rs =
     (if since \<le> rj_submittedAt r \<and> rj_state r \<noteq> ''PENDING''
      then scanReviews since fullRepo p rest (rs @ [reviewOf fullRepo p r])
      else scanReviews since fullRepo p rest rs)"

text \<open>The loop over the listed pull requests. The state is \<^verbatim>\<open>data.prs\<close> and
  \<^verbatim>\<open>data.reviews\<close>.\<close>

fun scanPRs ::
  "string \<Rightarrow> string \<Rightarrow> 'a pr_json_scheme list \<Rightarrow> pr list \<times> review list \<Rightarrow> pr list \<times> review list"
where
  "scanPRs since fullRepo [] st = st"
| "scanPRs since fullRepo (p # rest) (ps, rs) =
     (if \<not> inWindow since p then scanPRs since fullRepo rest (ps, rs)
      else scanPRs since fullRepo rest
             (ps @ [prOf fullRepo p], scanReviews since fullRepo p (pj_reviews p) rs))"

subsection \<open>3. and 4. Issue comments and PR review comments\<close>

definition commentOf :: "bool \<Rightarrow> string \<Rightarrow> comment_json \<Rightarrow> comment" where
  "commentOf isReview fullRepo c =
     \<lparr>comment_repo = repoName fullRepo,
      comment_author = orElse (cj_user c) ''unknown'',
      comment_issueNumber = orElse (trailingNumber (cj_target_url c)) ''?'',
      comment_body = take 120 (hd (str_split newline (orElse (cj_body c) []))),
      comment_createdAt = cj_created_at c,
      comment_isReviewComment = isReview\<rparr>"

subsection \<open>5. Issues (pull requests excluded) and 6. Releases\<close>

definition issueOf :: "string \<Rightarrow> issue_json \<Rightarrow> issue" where
  "issueOf fullRepo i =
     \<lparr>issue_repo = repoName fullRepo,
      issue_number = ij_number i,
      issue_title = ij_title i,
      issue_author = orElse (ij_user i) ''unknown'',
      issue_state = ij_state i,
      issue_createdAt = day (ij_created_at i),
      issue_url = ij_html_url i\<rparr>"

definition releaseOf :: "string \<Rightarrow> release_json \<Rightarrow> release" where
  "releaseOf fullRepo r =
     \<lparr>release_repo = repoName fullRepo,
      release_tag = lj_tag_name r,
      release_name = orElse (lj_name r) (lj_tag_name r),
      release_author = orElse (lj_author r) ''unknown'',
      release_publishedAt = day (lj_published_at r),
      release_url = lj_html_url r\<rparr>"

text \<open>\<^verbatim>\<open>if (answer) for (const x of answer) ...\<close>: nothing is listed when \<^verbatim>\<open>ghJSON\<close>
  returned \<^verbatim>\<open>null\<close>.\<close>

definition listed :: "'x list option \<Rightarrow> 'x list" where
  "listed answer = (case answer of None \<Rightarrow> [] | Some xs \<Rightarrow> xs)"

subsection \<open>The body of the loop over the repositories\<close>

text \<open>
  One repository: skipped whole when it lists no branch. The state is \<^verbatim>\<open>seenSHAs\<close>,
  which is created once before the loop, and \<^verbatim>\<open>data\<close>.
\<close>

definition branchesOf :: "'a github \<Rightarrow> string \<Rightarrow> string list" where
  "branchesOf w fullRepo = filter (\<lambda>b. b \<noteq> []) (str_split newline (gh_branches w fullRepo))"

definition scanRepo ::
  "'a github \<Rightarrow> string \<Rightarrow> string \<Rightarrow> string set \<times> activity \<Rightarrow> string set \<times> activity"
where
  "scanRepo w since fullRepo st =
     (if branchesOf w fullRepo = [] then st
      else
        (case st of (seenSHAs, d) \<Rightarrow>
          (case commitBranches w since fullRepo (branchesOf w fullRepo) (seenSHAs, commits d) of
             (seenSHAs', cs) \<Rightarrow>
          (case scanPRs since fullRepo (listed (gh_prList w fullRepo)) (prs d, reviews d) of
             (ps, rs) \<Rightarrow>
               (seenSHAs',
                d\<lparr>commits := cs,
                  prs := ps,
                  reviews := rs,
                  comments := comments d
                    @ map (commentOf False fullRepo) (listed (gh_issueComments w fullRepo since))
                    @ map (commentOf True fullRepo) (listed (gh_pullComments w fullRepo since)),
                  issues := issues d
                    @ map (issueOf fullRepo)
                        (filter (\<lambda>i. \<not> ij_pull_request i) (listed (gh_issues w fullRepo since))),
                  releases := releases d
                    @ map (releaseOf fullRepo)
                        (filter (\<lambda>r. geSince (lj_published_at r) since)
                           (listed (gh_releases w fullRepo)))\<rparr>)))))"

fun scanRepos ::
  "'a github \<Rightarrow> string \<Rightarrow> string list \<Rightarrow> string set \<times> activity \<Rightarrow> string set \<times> activity"
where
  "scanRepos w since [] st = st"
| "scanRepos w since (fullRepo # rest) st = scanRepos w since rest (scanRepo w since fullRepo st)"

subsection \<open>7. Org events: branch create/delete and membership changes\<close>

fun scanEvents ::
  "string \<Rightarrow> string \<Rightarrow> event_json list \<Rightarrow> branchEvent list \<times> memberEvent list
     \<Rightarrow> branchEvent list \<times> memberEvent list"
where
  "scanEvents orgName since [] st = st"
| "scanEvents orgName since (ev # rest) (bs, ms) =
     (if ej_created_at ev < since then scanEvents orgName since rest (bs, ms)
      else if ej_type ev = ''CreateEvent'' \<and> ej_ref_type ev = Some ''branch'' then
        scanEvents orgName since rest
          (bs @ [\<lparr>branchEvent_repo =
                     orElse (map_option (removeFirst (orgName @ ''/'')) (ej_repo_name ev)) [],
                   branchEvent_author = orElse (ej_actor ev) ''unknown'',
                   branchEvent_action = ''created'',
                   branchEvent_branch = ej_ref ev\<rparr>], ms)
      else if ej_type ev = ''DeleteEvent'' \<and> ej_ref_type ev = Some ''branch'' then
        scanEvents orgName since rest
          (bs @ [\<lparr>branchEvent_repo =
                     orElse (map_option (removeFirst (orgName @ ''/'')) (ej_repo_name ev)) [],
                   branchEvent_author = orElse (ej_actor ev) ''unknown'',
                   branchEvent_action = ''deleted'',
                   branchEvent_branch = ej_ref ev\<rparr>], ms)
      else if ej_type ev = ''MemberEvent'' then
        scanEvents orgName since rest
          (bs, ms @ [\<lparr>memberEvent_repo =
                         orElse (map_option (removeFirst (orgName @ ''/'')) (ej_repo_name ev)) [],
                       memberEvent_member = orElse (ej_member ev) ''unknown'',
                       memberEvent_action = orElse (ej_action ev) ''added'',
                       memberEvent_actor = orElse (ej_actor ev) ''unknown''\<rparr>])
      else scanEvents orgName since rest (bs, ms))"

subsection \<open>Deduplicate comments\<close>

text \<open>The key of the filter: \<^verbatim>\<open>`${c.repo}:${c.author}:${c.issueNumber}:${c.createdAt}`\<close>.\<close>

definition commentKey :: "comment \<Rightarrow> string" where
  "commentKey c =
     comment_repo c @ '':'' @ comment_author c @ '':'' @ comment_issueNumber c @ '':''
       @ comment_createdAt c"

text \<open>\<^verbatim>\<open>data.comments.filter(...)\<close>, its callback reading and growing \<^verbatim>\<open>commentKeys\<close>.\<close>

fun dedupComments :: "string set \<Rightarrow> comment list \<Rightarrow> comment list" where
  "dedupComments commentKeys [] = []"
| "dedupComments commentKeys (c # cs) =
     (if commentKey c \<in> commentKeys then dedupComments commentKeys cs
      else c # dedupComments (insert (commentKey c) commentKeys) cs)"

subsection \<open>The whole collection\<close>

definition allRepos :: "config \<Rightarrow> 'a github \<Rightarrow> string list" where
  "allRepos cfg w =
     map (\<lambda>r. org cfg @ ''/'' @ r)
       (filter (\<lambda>r. r \<noteq> []) (str_split newline (gh_orgRepos w (org cfg))))
     @ extraRepos cfg"

definition noActivity :: activity where
  "noActivity =
     \<lparr>commits = [], prs = [], reviews = [], comments = [], issues = [], releases = [],
      branchEvents = [], memberEvents = []\<rparr>"

definition collectGitData :: "config \<Rightarrow> string \<Rightarrow> 'a github \<Rightarrow> activity" where
  "collectGitData cfg since w =
     (case scanRepos w since (allRepos cfg w) ({}, noActivity) of
        (seenSHAs, d) \<Rightarrow>
          (case scanEvents (org cfg) since (listed (gh_orgEvents w (org cfg)))
                  (branchEvents d, memberEvents d) of
             (bs, ms) \<Rightarrow>
               d\<lparr>branchEvents := bs,
                 memberEvents := ms,
                 comments := dedupComments {} (comments d)\<rparr>))"

section \<open>formatRawData\<close>

text \<open>
  The local function \<^verbatim>\<open>n\<close>: \<^verbatim>\<open>authorMap[author] || author\<close>. The author map is
  the list of the entries of the configured object, whose keys are distinct: its own
  properties, as \<^verbatim>\<open>JSON.parse\<close> made them. A property read sees an own property
  first, the empty string too, which is falsy. For a name the object does not own it
  sees what every object inherits from \<^verbatim>\<open>Object.prototype\<close>: a function, or the
  prototype itself for \<^verbatim>\<open>__proto__\<close>. These are truthy, so \<^verbatim>\<open>n\<close> returns them, and
  the template literal of the line shows them as the texts below (those of Node).
\<close>

definition objectPrototype :: "(string \<times> string) list" where
  "objectPrototype =
     [(''constructor'', ''function Object() { [native code] }''),
      (''__defineGetter__'', ''function __defineGetter__() { [native code] }''),
      (''__defineSetter__'', ''function __defineSetter__() { [native code] }''),
      (''hasOwnProperty'', ''function hasOwnProperty() { [native code] }''),
      (''__lookupGetter__'', ''function __lookupGetter__() { [native code] }''),
      (''__lookupSetter__'', ''function __lookupSetter__() { [native code] }''),
      (''isPrototypeOf'', ''function isPrototypeOf() { [native code] }''),
      (''propertyIsEnumerable'', ''function propertyIsEnumerable() { [native code] }''),
      (''toString'', ''function toString() { [native code] }''),
      (''valueOf'', ''function valueOf() { [native code] }''),
      (''__proto__'', ''[object Object]''),
      (''toLocaleString'', ''function toLocaleString() { [native code] }'')]"

definition authorName :: "(string \<times> string) list \<Rightarrow> string \<Rightarrow> string" where
  "authorName amap author =
     (case map_of amap author of
        Some v \<Rightarrow> if v = [] then author else v
      | None \<Rightarrow>
          (case map_of objectPrototype author of
             Some member \<Rightarrow> member
           | None \<Rightarrow> author))"

definition commitLine :: "(string \<times> string) list \<Rightarrow> commit \<Rightarrow> string" where
  "commitLine amap c =
     ''['' @ commit_repo c @ ''] '' @ authorName amap (display (commit_author c))
       @ '' ('' @ commit_branch c @ ''): '' @ commit_message c @ '' | '' @ commit_url c"

definition prStatus :: "pr \<Rightarrow> string" where
  "prStatus p =
     (if pr_mergedAt p \<noteq> [] then ''MERGED '' @ pr_mergedAt p
      else if pr_closedAt p \<noteq> [] then ''CLOSED '' @ pr_closedAt p
      else pr_state p)"

definition prLine :: "(string \<times> string) list \<Rightarrow> pr \<Rightarrow> string" where
  "prLine amap p =
     ''['' @ pr_repo p @ ''] ['' @ prStatus p @ ''] #'' @ showNat (pr_number p) @ '' ''
       @ pr_title p @ '' by '' @ authorName amap (pr_author p) @ '' | created:''
       @ pr_createdAt p @ '' | '' @ pr_url p"

definition reviewLine :: "(string \<times> string) list \<Rightarrow> review \<Rightarrow> string" where
  "reviewLine amap r =
     ''['' @ review_repo r @ ''] PR #'' @ showNat (review_prNumber r) @ '': ''
       @ authorName amap (review_reviewer r) @ '' '' @ rightArrow @ '' '' @ review_state r"

definition commentLine :: "(string \<times> string) list \<Rightarrow> comment \<Rightarrow> string" where
  "commentLine amap c =
     ''['' @ comment_repo c @ ''] '' @ authorName amap (comment_author c) @ '' ''
       @ (if comment_isReviewComment c then ''code review on'' else ''commented on'')
       @ '' #'' @ comment_issueNumber c @ '': '' @ comment_body c"

definition issueLine :: "(string \<times> string) list \<Rightarrow> issue \<Rightarrow> string" where
  "issueLine amap i =
     ''['' @ issue_repo i @ ''] ['' @ issue_state i @ ''] #'' @ showNat (issue_number i)
       @ '' '' @ issue_title i @ '' by '' @ authorName amap (issue_author i) @ '' | ''
       @ issue_url i"

definition releaseLine :: "(string \<times> string) list \<Rightarrow> release \<Rightarrow> string" where
  "releaseLine amap r =
     ''['' @ release_repo r @ ''] '' @ release_tag r @ '' '' @ doubleQuote @ release_name r
       @ doubleQuote @ '' by '' @ authorName amap (release_author r) @ '' | ''
       @ release_publishedAt r @ '' | '' @ release_url r"

definition branchEventLine :: "(string \<times> string) list \<Rightarrow> branchEvent \<Rightarrow> string" where
  "branchEventLine amap b =
     ''['' @ branchEvent_repo b @ ''] '' @ authorName amap (branchEvent_author b) @ '' ''
       @ branchEvent_action b @ '' branch: '' @ branchEvent_branch b"

definition memberEventLine :: "(string \<times> string) list \<Rightarrow> memberEvent \<Rightarrow> string" where
  "memberEventLine amap m =
     ''['' @ memberEvent_repo m @ ''] '' @ authorName amap (memberEvent_member m) @ '' was ''
       @ memberEvent_action m @ '' by '' @ authorName amap (memberEvent_actor m)"

text \<open>A section of the text: its heading and a line for each record, or nothing.\<close>

definition textSection :: "string \<Rightarrow> ('x \<Rightarrow> string) \<Rightarrow> 'x list \<Rightarrow> string list" where
  "textSection heading line xs = (if xs = [] then [] else heading # map line xs)"

definition formatRawData :: "activity \<Rightarrow> (string \<times> string) list \<Rightarrow> string" where
  "formatRawData d amap =
     str_join [newline]
       (textSection ''COMMITS:'' (commitLine amap) (commits d)
        @ textSection (newline # ''PULL REQUESTS:'') (prLine amap) (prs d)
        @ textSection (newline # ''PR REVIEWS:'') (reviewLine amap) (reviews d)
        @ textSection (newline # ''COMMENTS:'') (commentLine amap) (comments d)
        @ textSection (newline # ''ISSUES:'') (issueLine amap) (issues d)
        @ textSection (newline # ''RELEASES:'') (releaseLine amap) (releases d)
        @ textSection (newline # ''BRANCH EVENTS:'') (branchEventLine amap) (branchEvents d)
        @ textSection (newline # ''MEMBERSHIP CHANGES:'') (memberEventLine amap)
            (memberEvents d))"

section \<open>The two text-generation calls\<close>

text \<open>
  What \<^verbatim>\<open>fetch\<close> is given besides the URL: the members of the options object. A
  member the object literal does not have is \<^verbatim>\<open>undefined\<close>; \<^verbatim>\<open>signal\<close> is the
  member that bounds the time of a request (\<^verbatim>\<open>AbortSignal.timeout(ms)\<close>). The body
  is the object given to \<^verbatim>\<open>JSON.stringify\<close>.
\<close>

datatype json_body =
  ChatCompletion string string nat
| SlackMessage string

record fetch_init =
  init_method :: string
  init_headers :: "(string \<times> string) list"
  init_body :: json_body
  init_signal :: "nat option"

text \<open>
  The response, as far as the program reads it: \<^verbatim>\<open>ok\<close>, \<^verbatim>\<open>status\<close>, \<^verbatim>\<open>text()\<close> and,
  for \<^verbatim>\<open>json()\<close>, the value of \<^verbatim>\<open>choices?.[0]?.message?.content\<close> when the body
  parses (\<^const>\<open>Inl\<close> carries the message of the error otherwise).
\<close>

record http_response =
  res_ok :: bool
  res_status :: nat
  res_text :: string
  res_content :: "string + string option"

text \<open>The options of \<^verbatim>\<open>execSync\<close>; the time limit is in milliseconds.\<close>

record exec_options =
  opt_input :: string
  opt_encoding :: string
  opt_timeout :: nat

text \<open>
  One run: the configuration file, the command line, the clock, the file context.md
  (empty when absent), the environment variable, and the answers of the outside
  world. A call that throws or rejects answers \<^const>\<open>Inl\<close> with the message of the
  error. The last field is the method \<^verbatim>\<open>trim\<close> of the strings of the platform.
\<close>

record 'a env =
  env_config :: config
  env_dryRun :: bool
  env_since :: string
  env_today :: string
  env_context :: string
  env_apiKey :: "string option"
  env_github :: "'a github"
  env_fetch :: "string \<Rightarrow> fetch_init \<Rightarrow> string + http_response"
  env_execSync :: "string \<Rightarrow> exec_options \<Rightarrow> string + string"
  env_trim :: "string \<Rightarrow> string"

text \<open>What a run does that can be observed, in order, and how the process exits.\<close>

datatype action =
  Log string
| Print string
| Fetch string fetch_init
| ExecSync string exec_options

record run =
  trace :: "action list"
  exitCode :: nat

subsection \<open>preprocessWithGemini\<close>

definition authorMapStr :: "(string \<times> string) list \<Rightarrow> string" where
  "authorMapStr amap =
     str_join '', '' (map (\<lambda>(k, v). k @ '' '' @ rightArrow @ '' '' @ v) amap)"

definition geminiPrompt :: "string \<Rightarrow> string \<Rightarrow> (string \<times> string) list \<Rightarrow> string" where
  "geminiPrompt pattern rawData amap =
     str_join [newline]
       [''You are a data organizer. Process this raw GitHub activity data into a structured summary grouped by person.'',
        [],
        ''Author mapping: '' @ authorMapStr amap,
        [],
        rawData,
        [],
        ''TASK: Organize ALL activity by person (use display names from mapping). For each person, list:'',
        [],
        ''1. COMMITS: repos worked on with commit count and key themes (1 short sentence per repo). Include branch name and one representative commit URL per repo.'',
        ''2. PRs: opened, merged, closed, or reviewed. Include PR number, title, state, and URL.'',
        ''3. REVIEWS: which PRs they reviewed and the verdict (approved, changes requested, commented).'',
        ''4. COMMENTS: what they commented on (issue/PR number and brief topic).'',
        ''5. ISSUES: issues they opened or closed.'',
        ''6. RELEASES: any releases they published.'',
        ''7. BRANCHES: branches they created or deleted.'',
        [],
        ''Also note:'',
        ''- '' @ (if pattern \<noteq> []
                 then ''Ticket references ('' @ pattern @ '' patterns from commit messages or PR titles)''
                 else ''Any ticket references from commit messages or PR titles''),
        ''- Dominant repo if one has significantly more activity'',
        ''- Any membership changes'',
        [],
        ''Output ONLY the structured data '' @ emDash @ '' no commentary, no formatting instructions. Keep it concise but complete. Use plain text, not markdown.'']"

definition geminiRequest :: "string \<Rightarrow> string \<Rightarrow> fetch_init" where
  "geminiRequest openrouterApiKey prompt =
     \<lparr>init_method = ''POST'',
      init_headers =
        [(''Content-Type'', ''application/json''),
         (''Authorization'', ''Bearer '' @ openrouterApiKey)],
      init_body = ChatCompletion ''google/gemini-2.5-flash'' prompt 2500,
      init_signal = None\<rparr>"

definition openrouterUrl :: string where
  "openrouterUrl = ''https://openrouter.ai/api/v1/chat/completions''"

text \<open>The call and what it returns: the trimmed content, or the empty string; or it throws.\<close>

definition preprocessWithGemini ::
  "'a env \<Rightarrow> string \<Rightarrow> string \<Rightarrow> (string \<times> string) list \<Rightarrow> action list \<times> (string + string)"
where
  "preprocessWithGemini e openrouterApiKey rawData amap =
     (let req = geminiRequest openrouterApiKey
                  (geminiPrompt (ticketPattern (env_config e)) rawData amap)
      in ([Fetch openrouterUrl req],
          (case env_fetch e openrouterUrl req of
             Inl err \<Rightarrow> Inl err
           | Inr res \<Rightarrow>
               if \<not> res_ok res
               then Inl (''OpenRouter error: '' @ showNat (res_status res) @ '' '' @ emDash
                          @ '' '' @ res_text res)
               else (case res_content res of
                       Inl err \<Rightarrow> Inl err
                     | Inr content \<Rightarrow> Inr (orElse (map_option (env_trim e) content) [])))))"

subsection \<open>generateSlackSummary\<close>

definition theCommand :: "config \<Rightarrow> string" where
  "theCommand cfg = orElse (llmCommand cfg) ''claude -p -''"

definition slackPrompt :: "'a env \<Rightarrow> string \<Rightarrow> bool \<Rightarrow> string" where
  "slackPrompt e structuredData isPreprocessed =
     str_join [newline]
       [''You are a dev activity summarizer. Generate a Slack daily summary from this ''
          @ (if isPreprocessed then ''pre-organized'' else ''raw'') @ '' data.'',
        (if env_context e \<noteq> []
         then newline # ''PROJECT CONTEXT:'' @ newline # env_context e @ [newline] else []),
        ''Date: '' @ env_today e,
        [],
        (if isPreprocessed then ''ORGANIZED ACTIVITY DATA'' else ''RAW ACTIVITY DATA'') @ '':'',
        structuredData,
        [],
        ''FORMAT RULES:'',
        ''- Use Slack mrkdwn (*bold*, _italic_, `code`)'',
        ''- For links use Slack format: <URL|display text>'',
        ''- Start with: *Daily Dev Summary '' @ emDash @ '' '' @ env_today e @ ''*'',
        ''- Group by person '' @ emDash @ '' under each person, show a short bullet list of all their activity (commits, PRs, reviews, comments, issues, releases, branches)'',
        ''- For commits: summarize into one bullet per repo with commit count in parentheses. Include branch name as a clickable compare link (<https://github.com/ORG/REPO/compare/main...BRANCH|branch>)'',
        ''- If most commits are in one dominant repo, note it once at top (_Most activity in <repo_url|repo>_) and only label bullets for other repos'',
        ''- For PRs: show state (opened, merged, closed). Link PR number: <pr_url|repo #number>. Split into *New PRs* vs *Open PRs* if both exist, otherwise just *PRs:*'',
        ''- For reviews: mention what they reviewed and the verdict (approved, changes requested)'',
        ''- For comments: briefly note what they commented on (don't quote full comments)'',
        ''- For issues: show opened/closed status'',
        ''- For releases: show tag and release name'',
        ''- For branches: mention created/deleted'',
        ''- For membership changes: note who was added/removed'',
        (if ticketPattern (env_config e) \<noteq> []
         then ''- Add *Tickets mentioned:* if any '' @ ticketPattern (env_config e)
                @ '' patterns appear''
         else []),
        ''- End with a *Notable:* line '' @ emDash @ '' one sentence on the main theme of the day'',
        ''- Omit sections that would be empty'',
        ''- Output ONLY the Slack message '' @ emDash @ '' no code blocks, no explanation, no prefix/suffix'']"

definition llmOptions :: "'a env \<Rightarrow> string \<Rightarrow> bool \<Rightarrow> exec_options" where
  "llmOptions e structuredData isPreprocessed =
     \<lparr>opt_input = slackPrompt e structuredData isPreprocessed,
      opt_encoding = ''utf8'',
      opt_timeout = 120000\<rparr>"

text \<open>The call and what it returns: the trimmed output of the command; or it throws.\<close>

definition generateSlackSummary ::
  "'a env \<Rightarrow> string \<Rightarrow> bool \<Rightarrow> action list \<times> (string + string)"
where
  "generateSlackSummary e structuredData isPreprocessed =
     ([ExecSync (theCommand (env_config e)) (llmOptions e structuredData isPreprocessed)],
      (case env_execSync e (theCommand (env_config e))
              (llmOptions e structuredData isPreprocessed) of
         Inl err \<Rightarrow> Inl (''LLM failed ('' @ theCommand (env_config e) @ ''): '' @ err)
       | Inr out \<Rightarrow> Inr (env_trim e out)))"

section \<open>main\<close>

text \<open>
  \<^verbatim>\<open>main\<close> is written here in three parts, in the order of its text. The lines that
  \<^verbatim>\<open>collectGitData\<close> logs are left out of the trace. \<^verbatim>\<open>process.exit(k)\<close> ends the
  run with code \<^verbatim>\<open>k\<close>; an error that leaves \<^verbatim>\<open>main\<close> is caught by
  \<^verbatim>\<open>main().catch\<close>, which logs it and exits with code 1; a run that reaches the end
  of \<^verbatim>\<open>main\<close> exits with code 0.
\<close>

definition webhookMissing :: "string option \<Rightarrow> bool" where
  "webhookMissing webhookUrl =
     (case webhookUrl of None \<Rightarrow> True | Some u \<Rightarrow> u = [] \<or> str_includes u ''XXXXX'')"

definition totalActivity :: "activity \<Rightarrow> nat" where
  "totalActivity d =
     length (commits d) + length (prs d) + length (reviews d) + length (comments d)
       + length (issues d) + length (releases d) + length (branchEvents d)
       + length (memberEvents d)"

text \<open>Step 2: Gemini Flash pre-processing, only if the key is set. It yields
  \<^verbatim>\<open>structuredData\<close> and \<^verbatim>\<open>isPreprocessed\<close>.\<close>

definition structuringStep :: "'a env \<Rightarrow> string \<Rightarrow> action list \<times> string \<times> bool" where
  "structuringStep e rawData =
     (if truthy (env_apiKey e) then
        (case preprocessWithGemini e (orElse (env_apiKey e) []) rawData
                (authorMap (env_config e)) of
           (acts, Inl err) \<Rightarrow>
             (Log ''Running Gemini Flash pre-processing...'' # acts
                @ [Log (''Gemini pre-processing failed: '' @ err),
                   Log ''Falling back to raw data...''],
              rawData, False)
         | (acts, Inr result) \<Rightarrow>
             if result \<noteq> []
             then (Log ''Running Gemini Flash pre-processing...'' # acts, result, True)
             else (Log ''Running Gemini Flash pre-processing...'' # acts
                     @ [Log ''Gemini returned empty result, using raw data...''],
                   rawData, False))
      else
        ([Log (''No OPENROUTER_API_KEY '' @ emDash
                @ '' skipping Gemini pre-processing, using raw data...'')],
         rawData, False))"

definition countsLine :: "activity \<Rightarrow> string" where
  "countsLine d =
     ''Raw: '' @ showNat (length (commits d)) @ '' commits, ''
       @ showNat (length (prs d)) @ '' PRs, ''
       @ showNat (length (reviews d)) @ '' reviews, ''
       @ showNat (length (comments d)) @ '' comments, ''
       @ showNat (length (issues d)) @ '' issues, ''
       @ showNat (length (releases d)) @ '' releases, ''
       @ showNat (length (branchEvents d)) @ '' branch events, ''
       @ showNat (length (memberEvents d)) @ '' membership''"

definition slackRequest :: "string \<Rightarrow> fetch_init" where
  "slackRequest summary =
     \<lparr>init_method = ''POST'',
      init_headers = [(''Content-Type'', ''application/json'')],
      init_body = SlackMessage summary,
      init_signal = None\<rparr>"

text \<open>Post to Slack.\<close>

definition postToSlack :: "'a env \<Rightarrow> string \<Rightarrow> run" where
  "postToSlack e summary =
     (case env_fetch e (display (slackWebhookUrl (env_config e))) (slackRequest summary) of
        Inl err \<Rightarrow>
          \<lparr>trace = [Fetch (display (slackWebhookUrl (env_config e))) (slackRequest summary),
                    Log (''ERROR: '' @ err)],
           exitCode = 1\<rparr>
      | Inr res \<Rightarrow>
          if res_ok res
          then \<lparr>trace = [Fetch (display (slackWebhookUrl (env_config e))) (slackRequest summary),
                         Log ''Posted to Slack successfully''],
                exitCode = 0\<rparr>
          else \<lparr>trace = [Fetch (display (slackWebhookUrl (env_config e))) (slackRequest summary),
                         Log (''ERROR: Slack returned HTTP '' @ showNat (res_status res))],
                exitCode = 1\<rparr>)"

text \<open>Step 3: the final LLM call, then the dry run's printing or the post.\<close>

definition formattingStep :: "'a env \<Rightarrow> activity \<Rightarrow> string \<Rightarrow> bool \<Rightarrow> run" where
  "formattingStep e d structuredData isPreprocessed =
     (case generateSlackSummary e structuredData isPreprocessed of
        (acts, Inl err) \<Rightarrow>
          \<lparr>trace = Log (''Running LLM summary ('' @ theCommand (env_config e) @ '')...'') # acts
                    @ [Log (''ERROR: '' @ err)],
           exitCode = 1\<rparr>
      | (acts, Inr summary) \<Rightarrow>
          if summary = [] then
            \<lparr>trace = Log (''Running LLM summary ('' @ theCommand (env_config e) @ '')...'') # acts
                      @ [Log ''ERROR: Empty summary from LLM''],
             exitCode = 1\<rparr>
          else if env_dryRun e then
            \<lparr>trace = Log (''Running LLM summary ('' @ theCommand (env_config e) @ '')...'') # acts
                      @ [Log (''DRY RUN '' @ emDash @ '' would post to Slack:''),
                         Print ''---'', Print summary, Print ''---'', Print []]
                      @ (if isPreprocessed
                         then [Print ''Gemini structured data:'', Print structuredData, Print []]
                         else [])
                      @ [Print (countsLine d)],
             exitCode = 0\<rparr>
          else
            \<lparr>trace = Log (''Running LLM summary ('' @ theCommand (env_config e) @ '')...'') # acts
                      @ trace (postToSlack e summary),
             exitCode = exitCode (postToSlack e summary)\<rparr>)"

definition main :: "'a env \<Rightarrow> run" where
  "main e =
     (if \<not> env_dryRun e \<and> webhookMissing (slackWebhookUrl (env_config e)) then
        \<lparr>trace = [Log ''ERROR: slackWebhookUrl not configured''], exitCode = 1\<rparr>
      else if totalActivity (collectGitData (env_config e) (env_since e) (env_github e)) = 0 then
        \<lparr>trace = [Log ''No activity found. Skipping summary.''], exitCode = 0\<rparr>
      else
        (case structuringStep e
                (formatRawData (collectGitData (env_config e) (env_since e) (env_github e))
                   (authorMap (env_config e))) of
           (acts, structuredData, isPreprocessed) \<Rightarrow>
             \<lparr>trace = acts
                  @ trace (formattingStep e
                            (collectGitData (env_config e) (env_since e) (env_github e))
                            structuredData isPreprocessed),
              exitCode = exitCode (formattingStep e
                            (collectGitData (env_config e) (env_since e) (env_github e))
                            structuredData isPreprocessed)\<rparr>))"

subsection \<open>execSync with a time limit\<close>

text \<open>
  The child process, left to itself: how long it runs (\<^const>\<open>None\<close> when it never
  ends), its exit status and what it writes. As the documentation of Node has it,
  \<^verbatim>\<open>execSync\<close> with the option \<^verbatim>\<open>timeout\<close> kills a process that runs longer and
  throws, as it throws for an exit status other than 0.
\<close>

record process =
  proc_duration :: "nat option"
  proc_status :: nat
  proc_stdout :: string

definition outlasts :: "process \<Rightarrow> nat \<Rightarrow> bool" where
  "outlasts p limit = (case proc_duration p of None \<Rightarrow> True | Some ms \<Rightarrow> limit < ms)"

definition nodeExecSync ::
  "(string \<Rightarrow> string \<Rightarrow> process) \<Rightarrow> string \<Rightarrow> exec_options \<Rightarrow> string + string" where
  "nodeExecSync spawn command opts =
     (if outlasts (spawn command (opt_input opts)) (opt_timeout opts)
      then Inl ''spawnSync /bin/sh ETIMEDOUT''
      else if proc_status (spawn command (opt_input opts)) \<noteq> 0
      then Inl (''Command failed: '' @ command)
      else Inr (proc_stdout (spawn command (opt_input opts))))"

section \<open>linear-utils.js\<close>

record linear_comment_json =
  lcj_body :: string
  lcj_createdAt :: string
  lcj_displayName :: "string option"
  lcj_name :: "string option"

record linear_issue_json =
  lij_identifier :: string
  lij_title :: string
  lij_stateName :: string
  lij_assignee :: "string option"
  lij_priorityLabel :: string
  lij_createdAt :: string
  lij_comments :: "linear_comment_json list"

record linear_comment =
  lc_issue :: string
  lc_issueTitle :: string
  lc_author :: string
  lc_body :: string
  lc_createdAt :: string

record linear_activity =
  newIssues :: "linear_issue_json list"
  activeIssues :: "linear_issue_json list"
  recentComments :: "linear_comment list"

text \<open>The response of the GraphQL request; \<^verbatim>\<open>errors\<close> is \<^verbatim>\<open>JSON.stringify(json.errors)\<close>
  when the answer has errors.\<close>

record linear_response =
  lres_ok :: bool
  lres_status :: nat
  lres_statusText :: string
  lres_errors :: "string option"
  lres_issues :: "linear_issue_json list"

subsection \<open>fetchLinearActivity\<close>

text \<open>
  \<^verbatim>\<open>xs.sort(cmp)\<close>: the sort of an array is stable, so with a comparator that is
  consistent the result is that of the insertion sort below. An element goes before
  the first one it does not have to follow.
\<close>

fun insertBy :: "('x \<Rightarrow> 'x \<Rightarrow> int) \<Rightarrow> 'x \<Rightarrow> 'x list \<Rightarrow> 'x list" where
  "insertBy cmp x [] = [x]"
| "insertBy cmp x (y # ys) = (if cmp x y \<le> 0 then x # y # ys else y # insertBy cmp x ys)"

definition arraySort :: "('x \<Rightarrow> 'x \<Rightarrow> int) \<Rightarrow> 'x list \<Rightarrow> 'x list" where
  "arraySort cmp xs = foldr (insertBy cmp) xs []"

text \<open>The body of a comment, capped at 500 characters.\<close>

definition cappedBody :: "string \<Rightarrow> string" where
  "cappedBody body = (if 500 < length body then take 500 body @ ''...'' else body)"

definition linearCommentOf :: "linear_issue_json \<Rightarrow> linear_comment_json \<Rightarrow> linear_comment" where
  "linearCommentOf issue c =
     \<lparr>lc_issue = lij_identifier issue,
      lc_issueTitle = lij_title issue,
      lc_author = orElse (lcj_displayName c) (orElse (lcj_name c) ''Unknown''),
      lc_body = cappedBody (lcj_body c),
      lc_createdAt = lcj_createdAt c\<rparr>"

text \<open>
  The loop over the issues. \<^verbatim>\<open>new Date(s)\<close> is read through \<open>dateMs\<close>, the time
  value of a timestamp in milliseconds; the timestamps are taken to be valid dates.
\<close>

fun categorize ::
  "(string \<Rightarrow> int) \<Rightarrow> string \<Rightarrow> linear_issue_json list \<Rightarrow> linear_activity \<Rightarrow> linear_activity"
where
  "categorize dateMs since [] acc = acc"
| "categorize dateMs since (issue # rest) acc =
     categorize dateMs since rest
       (acc\<lparr>newIssues :=
               (if dateMs since \<le> dateMs (lij_createdAt issue)
                then newIssues acc @ [issue] else newIssues acc),
            activeIssues :=
               (if dateMs since \<le> dateMs (lij_createdAt issue)
                then activeIssues acc else activeIssues acc @ [issue]),
            recentComments :=
               recentComments acc @ map (linearCommentOf issue) (lij_comments issue)\<rparr>)"

definition newestFirst :: "(string \<Rightarrow> int) \<Rightarrow> linear_comment \<Rightarrow> linear_comment \<Rightarrow> int" where
  "newestFirst dateMs a b = dateMs (lc_createdAt b) - dateMs (lc_createdAt a)"

text \<open>The answer of \<^verbatim>\<open>fetch\<close> is \<^const>\<open>Inl\<close> when the request is rejected.\<close>

definition fetchLinearActivity ::
  "(string \<Rightarrow> int) \<Rightarrow> string \<Rightarrow> string + linear_response \<Rightarrow> string + linear_activity"
where
  "fetchLinearActivity dateMs since answer =
     (case answer of
        Inl err \<Rightarrow> Inl err
      | Inr res \<Rightarrow>
          if \<not> lres_ok res
          then Inl (''Linear API error: '' @ showNat (lres_status res) @ '' ''
                     @ lres_statusText res)
          else (case lres_errors res of
                  Some errs \<Rightarrow> Inl (''Linear GraphQL errors: '' @ errs)
                | None \<Rightarrow>
                    (case categorize dateMs since (lres_issues res)
                            \<lparr>newIssues = [], activeIssues = [], recentComments = []\<rparr> of
                       acc \<Rightarrow>
                         Inr (acc\<lparr>recentComments :=
                                take 20 (arraySort (newestFirst dateMs)
                                           (recentComments acc))\<rparr>))))"

subsection \<open>formatLinearData: the local function mapName\<close>

text \<open>The loop over \<^verbatim>\<open>Object.entries(authorMap)\<close>. The first parameter is the
  method \<^verbatim>\<open>toLowerCase\<close> of the strings of the platform.\<close>

fun mapNameEntries ::
  "(string \<Rightarrow> string) \<Rightarrow> (string \<times> string) list \<Rightarrow> string \<Rightarrow> string" where
  "mapNameEntries toLowerCase [] name = name"
| "mapNameEntries toLowerCase ((key, val) # rest) name =
     (if str_includes (toLowerCase name) (toLowerCase key)
         \<or> str_includes (toLowerCase key) (toLowerCase name)
      then val else mapNameEntries toLowerCase rest name)"

definition mapName ::
  "(string \<Rightarrow> string) \<Rightarrow> (string \<times> string) list \<Rightarrow> string option \<Rightarrow> string" where
  "mapName toLowerCase amap name =
     (case name of
        None \<Rightarrow> ''Unassigned''
      | Some s \<Rightarrow> if s = [] then ''Unassigned'' else mapNameEntries toLowerCase amap s)"

section \<open>Notions the properties are stated with\<close>

subsection \<open>Commits\<close>

text \<open>
  The raw commit records of a run, in the order the program reads them: every line
  of every listing, with the repository and the branch it was listed for.
\<close>

definition branchListing ::
  "'a github \<Rightarrow> string \<Rightarrow> string \<Rightarrow> string list \<Rightarrow> (string \<times> string \<times> string) list" where
  "branchListing w since fullRepo bs =
     concat (map (\<lambda>branch.
        map (\<lambda>line. (fullRepo, branch, line))
          (str_split newline (gh_commits w fullRepo since branch))) bs)"

definition commitListing ::
  "'a github \<Rightarrow> string \<Rightarrow> string list \<Rightarrow> (string \<times> string \<times> string) list" where
  "commitListing w since repos =
     concat (map (\<lambda>fullRepo. branchListing w since fullRepo (branchesOf w fullRepo)) repos)"

text \<open>The SHA of a raw record, and the first raw record of a listing with a given SHA.\<close>

definition recordSha :: "string \<times> string \<times> string \<Rightarrow> string" where
  "recordSha x = lineSha (snd (snd x))"

definition firstWithSha :: "string \<Rightarrow> (string \<times> string \<times> string) list
    \<Rightarrow> (string \<times> string \<times> string) option" where
  "firstWithSha h xs = find (\<lambda>x. recordSha x = h) xs"

text \<open>The SHA of a commit event: what its URL has after the repository's commit path.\<close>

definition commitSha :: "commit \<Rightarrow> string" where
  "commitSha c =
     drop (length (''https://github.com/'' @ commit_fullRepo c @ ''/commit/'')) (commit_url c)"

text \<open>The raw records a scan keeps, given the SHAs seen before it.\<close>

fun firstSeen ::
  "string set \<Rightarrow> (string \<times> string \<times> string) list \<Rightarrow> (string \<times> string \<times> string) list" where
  "firstSeen seen [] = []"
| "firstSeen seen (x # rest) =
     (if recordSha x = [] \<or> recordSha x \<in> seen then firstSeen seen rest
      else x # firstSeen (insert (recordSha x) seen) rest)"

definition shasOf :: "(string \<times> string \<times> string) list \<Rightarrow> string set" where
  "shasOf xs = set (filter (\<lambda>h. h \<noteq> []) (map recordSha xs))"

definition recordCommit :: "string \<times> string \<times> string \<Rightarrow> commit" where
  "recordCommit x = commitOf (fst x) (fst (snd x)) (snd (snd x))"

subsection \<open>Pull requests and comments\<close>

text \<open>
  The pull requests and the comments a run reads, in the order it reads them: those
  listed for the repositories that have a branch.
\<close>

definition prListing :: "'a github \<Rightarrow> string list \<Rightarrow> (string \<times> 'a pr_json_scheme) list" where
  "prListing w repos =
     concat (map (\<lambda>fullRepo.
        if branchesOf w fullRepo = [] then []
        else map (\<lambda>p. (fullRepo, p)) (listed (gh_prList w fullRepo))) repos)"

definition commentListing :: "'a github \<Rightarrow> string \<Rightarrow> string list \<Rightarrow> comment list" where
  "commentListing w since repos =
     concat (map (\<lambda>fullRepo.
        if branchesOf w fullRepo = [] then []
        else map (commentOf False fullRepo) (listed (gh_issueComments w fullRepo since))
               @ map (commentOf True fullRepo) (listed (gh_pullComments w fullRepo since)))
       repos)"

text \<open>
  Touched in the window, in the words of the specification: one of the lifecycle
  timestamps that the pull request has is not before \<open>since\<close>.
\<close>

definition touchedInWindow :: "string \<Rightarrow> 'a pr_json_scheme \<Rightarrow> bool" where
  "touchedInWindow since p =
     (since \<le> pj_createdAt p
      \<or> (\<exists>t. pj_mergedAt p = Some t \<and> since \<le> t)
      \<or> (\<exists>t. pj_closedAt p = Some t \<and> since \<le> t))"

text \<open>What identifies a remark: repository, author, number of the item, timestamp.\<close>

definition commentTuple :: "comment \<Rightarrow> string \<times> string \<times> string \<times> string" where
  "commentTuple c =
     (comment_repo c, comment_author c, comment_issueNumber c, comment_createdAt c)"

text \<open>A name of GitHub (of a repository, of an account) has no colon.\<close>

definition colonFree :: "string \<Rightarrow> bool" where
  "colonFree s = (CHR '':'' \<notin> set s)"

definition namesColonFree :: "comment \<Rightarrow> bool" where
  "namesColonFree c = (colonFree (comment_repo c) \<and> colonFree (comment_author c))"

subsection \<open>Author names\<close>

text \<open>
  The match of the specification: the one name is contained in the other, case
  ignored (both put in lower case by the method of the platform), as a contiguous
  piece.
\<close>

definition isSubstring :: "string \<Rightarrow> string \<Rightarrow> bool" where
  "isSubstring needle s = (\<exists>front rest. s = front @ needle @ rest)"

definition fuzzyMatch :: "(string \<Rightarrow> string) \<Rightarrow> string \<Rightarrow> string \<Rightarrow> bool" where
  "fuzzyMatch toLowerCase name key =
     (isSubstring (toLowerCase key) (toLowerCase name)
      \<or> isSubstring (toLowerCase name) (toLowerCase key))"

subsection \<open>Linear comments\<close>

text \<open>All comments of an answer, issue by issue, and the order newest first.\<close>

definition allLinearComments :: "linear_issue_json list \<Rightarrow> linear_comment list" where
  "allLinearComments is =
     concat (map (\<lambda>issue. map (linearCommentOf issue) (lij_comments issue)) is)"

definition notOlder :: "(string \<Rightarrow> int) \<Rightarrow> linear_comment \<Rightarrow> linear_comment \<Rightarrow> bool" where
  "notOlder dateMs a b = (dateMs (lc_createdAt b) \<le> dateMs (lc_createdAt a))"

subsection \<open>Runs\<close>

text \<open>
  The snapshot of a run and its rendered text; whether a run gets past the check of
  the configuration; the calls in a trace: of the structuring stage (stage 1), of the
  formatting stage (stage 2), and the delivery POST.
\<close>

definition snapshot :: "'a env \<Rightarrow> activity" where
  "snapshot e = collectGitData (env_config e) (env_since e) (env_github e)"

definition renderedText :: "'a env \<Rightarrow> string" where
  "renderedText e = formatRawData (snapshot e) (authorMap (env_config e))"

definition configAccepted :: "'a env \<Rightarrow> bool" where
  "configAccepted e = (env_dryRun e \<or> \<not> webhookMissing (slackWebhookUrl (env_config e)))"

definition isStructuringCall :: "action \<Rightarrow> bool" where
  "isStructuringCall a =
     (case a of
        Fetch url init \<Rightarrow> (case init_body init of ChatCompletion m c k \<Rightarrow> True | _ \<Rightarrow> False)
      | _ \<Rightarrow> False)"

definition isFormattingCall :: "action \<Rightarrow> bool" where
  "isFormattingCall a = (case a of ExecSync command opts \<Rightarrow> True | _ \<Rightarrow> False)"

definition isDelivery :: "action \<Rightarrow> bool" where
  "isDelivery a =
     (case a of
        Fetch url init \<Rightarrow> (case init_body init of SlackMessage t \<Rightarrow> True | _ \<Rightarrow> False)
      | _ \<Rightarrow> False)"

text \<open>What the structuring call of a run answers, the key being set.\<close>

definition structuringOutcome :: "'a env \<Rightarrow> string + string" where
  "structuringOutcome e =
     snd (preprocessWithGemini e (orElse (env_apiKey e) []) (renderedText e)
            (authorMap (env_config e)))"

text \<open>What the formatting call of a run answers for a text and its label.\<close>

definition formattingOutcome :: "'a env \<Rightarrow> string \<Rightarrow> bool \<Rightarrow> string + string" where
  "formattingOutcome e text isPreprocessed = snd (generateSlackSummary e text isPreprocessed)"

section \<open>The inputs of the examples\<close>

text \<open>
  One repository of the organisation and a fork of it outside, each with the branches
  main and feature/x. The commit abc123 is on both branches, and one pull request
  was opened in the window.
\<close>

definition exampleLine :: string where
  "exampleLine = ''abc123'' @ [tab] @ ''alice'' @ [tab] @ ''Fix bug''"

definition exampleListing :: "string \<Rightarrow> string \<Rightarrow> string \<Rightarrow> string" where
  "exampleListing fullRepo since branch =
     (if branch = ''main'' then exampleLine
      else exampleLine @ [newline] @ ''def456'' @ [tab] @ ''bob'' @ [tab] @ ''Add x'')"

definition examplePR :: pr_json_updated where
  "examplePR =
     \<lparr>pj_number = 7, pj_title = ''Add x'', pj_author = Some ''bob'', pj_state = ''OPEN'',
      pj_createdAt = ''2024-05-02T10:00:00Z'', pj_mergedAt = None, pj_closedAt = None,
      pj_reviews = [], pj_updatedAt = ''2024-05-03T09:00:00Z''\<rparr>"

text \<open>An old pull request that was merged in the window, and an old one that only a
  bot touched in the window.\<close>

definition mergedPR :: pr_json_updated where
  "mergedPR =
     \<lparr>pj_number = 5, pj_title = ''Old work'', pj_author = Some ''alice'', pj_state = ''MERGED'',
      pj_createdAt = ''2024-04-01T10:00:00Z'', pj_mergedAt = Some ''2024-05-02T08:00:00Z'',
      pj_closedAt = Some ''2024-05-02T08:00:00Z'',
      pj_reviews = [], pj_updatedAt = ''2024-05-02T08:00:00Z''\<rparr>"

definition stalePR :: pr_json_updated where
  "stalePR =
     \<lparr>pj_number = 3, pj_title = ''Stale'', pj_author = None, pj_state = ''OPEN'',
      pj_createdAt = ''2024-04-01T10:00:00Z'', pj_mergedAt = None, pj_closedAt = None,
      pj_reviews = [], pj_updatedAt = ''2024-05-02T12:00:00Z''\<rparr>"

text \<open>A remark that both comment listings report.\<close>

definition exampleIssueComment :: comment_json where
  "exampleIssueComment =
     \<lparr>cj_user = Some ''bob'',
      cj_target_url = Some ''https://api.github.com/repos/acme/api/issues/7'',
      cj_body = Some ''Looks good'', cj_created_at = ''2024-05-02T11:00:00Z''\<rparr>"

definition examplePullComment :: comment_json where
  "examplePullComment =
     \<lparr>cj_user = Some ''bob'',
      cj_target_url = Some ''https://api.github.com/repos/acme/api/pulls/7'',
      cj_body = Some ''Looks good'', cj_created_at = ''2024-05-02T11:00:00Z''\<rparr>"

definition exampleGithub :: "unit pr_json_updated_ext github" where
  "exampleGithub =
     \<lparr>gh_orgRepos = (\<lambda>orgName. ''api''),
      gh_branches = (\<lambda>fullRepo. ''main'' @ [newline] @ ''feature/x''),
      gh_commits = exampleListing,
      gh_prList =
        (\<lambda>fullRepo. if fullRepo = ''acme/api'' then Some [examplePR, stalePR, mergedPR]
                     else None),
      gh_issueComments =
        (\<lambda>fullRepo since. if fullRepo = ''acme/api'' then Some [exampleIssueComment] else None),
      gh_pullComments =
        (\<lambda>fullRepo since. if fullRepo = ''acme/api'' then Some [examplePullComment] else None),
      gh_issues = (\<lambda>fullRepo since. None),
      gh_releases = (\<lambda>fullRepo. None),
      gh_orgEvents = (\<lambda>orgName. None)\<rparr>"

definition exampleConfig :: config where
  "exampleConfig =
     \<lparr>org = ''acme'', extraRepos = [''fork/api''],
      slackWebhookUrl = Some ''https://hooks.example/T1'',
      authorMap = [(''alice'', ''Alice A.'')], ticketPattern = [], llmCommand = None\<rparr>"

definition exampleSince :: string where
  "exampleSince = ''2024-05-02T00:00:00.000Z''"

text \<open>
  An answer of Linear: an old issue with 25 comments of one time, and a new issue
  with one later comment whose body has 600 characters.
\<close>

definition exampleDateMs :: "string \<Rightarrow> int" where
  "exampleDateMs s =
     (if s = ''2024-05-02T11:00:00.000Z'' then 1714647600000
      else if s = ''2024-05-02T00:00:00.000Z'' then 1714608000000
      else 1714521600000)"

definition oldComment :: linear_comment_json where
  "oldComment =
     \<lparr>lcj_body = ''ok'', lcj_createdAt = ''2024-05-02T00:00:00.000Z'',
      lcj_displayName = Some ''Ann'', lcj_name = None\<rparr>"

definition longComment :: linear_comment_json where
  "longComment =
     \<lparr>lcj_body = replicate 600 (CHR ''x''), lcj_createdAt = ''2024-05-02T11:00:00.000Z'',
      lcj_displayName = None, lcj_name = None\<rparr>"

definition oldIssue :: linear_issue_json where
  "oldIssue =
     \<lparr>lij_identifier = ''ENG-1'', lij_title = ''Fix login'', lij_stateName = ''In Progress'',
      lij_assignee = Some ''Ann'', lij_priorityLabel = ''High'',
      lij_createdAt = ''2024-05-01T00:00:00.000Z'',
      lij_comments = replicate 25 oldComment\<rparr>"

definition newIssue :: linear_issue_json where
  "newIssue =
     \<lparr>lij_identifier = ''ENG-2'', lij_title = ''Add export'', lij_stateName = ''Todo'',
      lij_assignee = None, lij_priorityLabel = ''Low'',
      lij_createdAt = ''2024-05-02T11:00:00.000Z'',
      lij_comments = [longComment]\<rparr>"

definition exampleAnswer :: "string + linear_response" where
  "exampleAnswer =
     Inr \<lparr>lres_ok = True, lres_status = 200, lres_statusText = ''OK'', lres_errors = None,
          lres_issues = [oldIssue, newIssue]\<rparr>"

definition exampleLinear :: linear_activity where
  "exampleLinear =
     \<lparr>newIssues = [newIssue], activeIssues = [oldIssue],
      recentComments =
        \<lparr>lc_issue = ''ENG-2'', lc_issueTitle = ''Add export'', lc_author = ''Unknown'',
         lc_body = replicate 500 (CHR ''x'') @ ''...'',
         lc_createdAt = ''2024-05-02T11:00:00.000Z''\<rparr>
        # replicate 19
            \<lparr>lc_issue = ''ENG-1'', lc_issueTitle = ''Fix login'', lc_author = ''Ann'',
             lc_body = ''ok'', lc_createdAt = ''2024-05-02T00:00:00.000Z''\<rparr>\<rparr>"

text \<open>
  Runs: the example repositories, a live run with no key for the structuring stage,
  every request answered with success and the command with a summary. And an
  organisation where nothing happened.
\<close>

definition okResponse :: http_response where
  "okResponse = \<lparr>res_ok = True, res_status = 200, res_text = ''ok'', res_content = Inr None\<rparr>"

definition exampleEnv :: "unit pr_json_updated_ext env" where
  "exampleEnv =
     \<lparr>env_config = exampleConfig,
      env_dryRun = False,
      env_since = exampleSince,
      env_today = ''Thursday, May 2'',
      env_context = [],
      env_apiKey = None,
      env_github = exampleGithub,
      env_fetch = (\<lambda>url init. Inr okResponse),
      env_execSync = (\<lambda>command opts. Inr ''*Daily Dev Summary*''),
      env_trim = asciiTrim\<rparr>"

definition quietGithub :: "unit pr_json_updated_ext github" where
  "quietGithub =
     \<lparr>gh_orgRepos = (\<lambda>orgName. []),
      gh_branches = (\<lambda>fullRepo. []),
      gh_commits = (\<lambda>fullRepo since branch. []),
      gh_prList = (\<lambda>fullRepo. None),
      gh_issueComments = (\<lambda>fullRepo since. None),
      gh_pullComments = (\<lambda>fullRepo since. None),
      gh_issues = (\<lambda>fullRepo since. None),
      gh_releases = (\<lambda>fullRepo. None),
      gh_orgEvents = (\<lambda>orgName. Some [])\<rparr>"

definition quietEnv :: "unit pr_json_updated_ext env" where
  "quietEnv =
     exampleEnv\<lparr>env_config := exampleConfig\<lparr>extraRepos := []\<rparr>, env_github := quietGithub\<rparr>"

text \<open>A command that never ends, and a request that is rejected.\<close>

definition hangingProcess :: "string \<Rightarrow> string \<Rightarrow> process" where
  "hangingProcess command input = \<lparr>proc_duration = None, proc_status = 0, proc_stdout = []\<rparr>"

definition rejectedFetch :: "string \<Rightarrow> fetch_init \<Rightarrow> string + http_response" where
  "rejectedFetch url init = Inl ''fetch failed''"

text \<open>
  Runs with a key for the structuring stage whose request is rejected; with a command
  that fails; and with a command that never ends, under the time limit of Node.
\<close>

definition degradedEnv :: "unit pr_json_updated_ext env" where
  "degradedEnv =
     exampleEnv\<lparr>env_apiKey := Some ''sk-test'',
                env_fetch := (\<lambda>url init. if url = openrouterUrl then rejectedFetch url init
                                        else Inr okResponse)\<rparr>"

definition failingEnv :: "unit pr_json_updated_ext env" where
  "failingEnv =
     exampleEnv\<lparr>env_execSync := (\<lambda>command opts. Inl (''Command failed: '' @ command))\<rparr>"

definition timeoutEnv :: "unit pr_json_updated_ext env" where
  "timeoutEnv = degradedEnv\<lparr>env_execSync := nodeExecSync hangingProcess\<rparr>"

section \<open>Properties of the collection\<close>

subsection \<open>The commits kept are the first raw records of their SHAs\<close>

lemma shasOf_simps:
  "shasOf [] = {}"
  "shasOf (x # xs) = (if recordSha x = [] then shasOf xs else insert (recordSha x) (shasOf xs))"
  "shasOf (xs @ ys) = shasOf xs \<union> shasOf ys"
  by (auto simp: shasOf_def)

lemma lineSha_Nil: "lineSha [] = []"
  by (simp add: lineSha_def commitFields_def str_split_def)

lemma commitSha_recordCommit: "commitSha (recordCommit x) = recordSha x"
  by (simp add: commitSha_def recordCommit_def commitOf_def recordSha_def lineSha_def
      split: prod.splits)

lemma firstSeen_append:
  "firstSeen seen (xs @ ys) = firstSeen seen xs @ firstSeen (seen \<union> shasOf xs) ys"
proof (induction xs arbitrary: seen)
  case Nil
  show ?case by (simp add: shasOf_simps)
next
  case (Cons x xs)
  show ?case
    using Cons.IH [of seen] Cons.IH [of "insert (recordSha x) seen"]
    by (auto simp: shasOf_simps insert_absorb)
qed

lemma commitLines_firstSeen:
  "commitLines fr b ls (seen, cs) =
     (seen \<union> shasOf (map (\<lambda>l. (fr, b, l)) ls),
      cs @ map recordCommit (firstSeen seen (map (\<lambda>l. (fr, b, l)) ls)))"
proof (induction ls arbitrary: seen cs)
  case Nil
  show ?case by (simp add: shasOf_simps)
next
  case (Cons l ls)
  show ?case
    by (auto simp: Cons.IH shasOf_simps lineSha_Nil recordSha_def recordCommit_def)
qed

lemma empty_listing:
  "firstSeen seen (map (\<lambda>l. (fr, b, l)) (str_split newline [])) = []"
  "shasOf (map (\<lambda>l. (fr, b, l)) (str_split newline [])) = {}"
  by (simp_all add: str_split_def lineSha_Nil shasOf_simps recordSha_def)

lemma commitBranches_firstSeen:
  "commitBranches w since fr bs (seen, cs) =
     (seen \<union> shasOf (branchListing w since fr bs),
      cs @ map recordCommit (firstSeen seen (branchListing w since fr bs)))"
proof (induction bs arbitrary: seen cs)
  case Nil
  show ?case by (simp add: branchListing_def shasOf_simps)
next
  case (Cons b bs)
  have eq: "branchListing w since fr (b # bs) =
      map (\<lambda>l. (fr, b, l)) (str_split newline (gh_commits w fr since b))
        @ branchListing w since fr bs"
    by (simp add: branchListing_def)
  show ?case
  proof (cases "gh_commits w fr since b = []")
    case True
    then show ?thesis
      by (simp add: eq Cons.IH firstSeen_append empty_listing shasOf_simps)
  next
    case False
    then show ?thesis
      by (simp add: eq Cons.IH firstSeen_append commitLines_firstSeen shasOf_simps Un_assoc)
  qed
qed

lemma scanRepo_commits:
  "scanRepo w since fr (seen, d) = (seen', d') \<Longrightarrow>
     (seen', commits d') = commitBranches w since fr (branchesOf w fr) (seen, commits d)"
  by (auto simp: scanRepo_def split: prod.splits if_splits)

lemma scanRepos_firstSeen:
  "scanRepos w since repos (seen, d) = (seen', d') \<Longrightarrow>
     seen' = seen \<union> shasOf (commitListing w since repos) \<and>
     commits d' = commits d @ map recordCommit (firstSeen seen (commitListing w since repos))"
proof (induction repos arbitrary: seen d)
  case Nil
  then show ?case by (simp add: commitListing_def shasOf_simps)
next
  case (Cons fr repos)
  obtain s1 d1 where step: "scanRepo w since fr (seen, d) = (s1, d1)"
    by (cases "scanRepo w since fr (seen, d)")
  have eq: "commitListing w since (fr # repos) =
      branchListing w since fr (branchesOf w fr) @ commitListing w since repos"
    by (simp add: commitListing_def)
  from scanRepo_commits [OF step]
  have s1: "s1 = seen \<union> shasOf (branchListing w since fr (branchesOf w fr))"
    and d1: "commits d1 = commits d
        @ map recordCommit (firstSeen seen (branchListing w since fr (branchesOf w fr)))"
    by (simp_all add: commitBranches_firstSeen)
  from Cons.prems step have "scanRepos w since repos (s1, d1) = (seen', d')" by simp
  from Cons.IH [OF this] show ?case
    by (simp add: eq s1 d1 firstSeen_append shasOf_simps Un_assoc)
qed

lemma collectGitData_commits:
  "commits (collectGitData cfg since w) =
     map recordCommit (firstSeen {} (commitListing w since (allRepos cfg w)))"
proof -
  obtain s d where sc: "scanRepos w since (allRepos cfg w) ({}, noActivity) = (s, d)"
    by (cases "scanRepos w since (allRepos cfg w) ({}, noActivity)")
  have "commits noActivity = []" by (simp add: noActivity_def)
  with scanRepos_firstSeen [OF sc] show ?thesis
    by (simp add: collectGitData_def sc split: prod.splits)
qed

lemma filter_firstSeen:
  "h \<noteq> [] \<Longrightarrow> filter (\<lambda>x. recordSha x = h) (firstSeen seen xs) =
     (if h \<in> seen then []
      else case firstWithSha h xs of None \<Rightarrow> [] | Some x \<Rightarrow> [x])"
proof (induction xs arbitrary: seen)
  case Nil
  show ?case by (simp add: firstWithSha_def)
next
  case (Cons x xs)
  show ?case
    using Cons.prems by (auto simp: Cons.IH firstWithSha_def)
qed

lemma filter_commitSha:
  "filter (\<lambda>c. commitSha c = h) (map recordCommit ys)
      = map recordCommit (filter (\<lambda>x. recordSha x = h) ys)"
  by (induction ys) (auto simp: commitSha_recordCommit)

lemma commits_with_sha:
  assumes "h \<noteq> []"
  shows "filter (\<lambda>c. commitSha c = h) (commits (collectGitData cfg since w)) =
     (case firstWithSha h (commitListing w since (allRepos cfg w)) of
        None \<Rightarrow> [] | Some x \<Rightarrow> [recordCommit x])"
  using assms
  by (simp add: collectGitData_commits filter_commitSha filter_firstSeen split: option.splits)

text \<open>
  C1. Whatever the branch listings of a run hold: when a SHA (a non-empty one, as the
  program skips the lines without) occurs in them, once or in several listings, the
  snapshot has exactly one commit event with that SHA, and it is the event made from
  the first raw record with that SHA in the order of the scan. The collection is a
  total function: the later records are dropped and nothing fails.
\<close>

theorem commit_once_first_seen:
  assumes "h \<noteq> []"
    and "firstWithSha h (commitListing w since (allRepos cfg w)) = Some (fullRepo, branch, line)"
  shows "filter (\<lambda>c. commitSha c = h) (commits (collectGitData cfg since w))
           = [commitOf fullRepo branch line]"
  using assms by (simp add: commits_with_sha recordCommit_def)

theorem commit_once_first_seen_witness:
  "firstWithSha ''abc123''
       (commitListing exampleGithub exampleSince (allRepos exampleConfig exampleGithub))
     = Some (''acme/api'', ''main'', exampleLine)
   \<and> filter (\<lambda>c. commitSha c = ''abc123'')
         (commits (collectGitData exampleConfig exampleSince exampleGithub))
       = [commitOf ''acme/api'' ''main'' exampleLine]"
proof -
  have first: "firstWithSha ''abc123''
       (commitListing exampleGithub exampleSince (allRepos exampleConfig exampleGithub))
     = Some (''acme/api'', ''main'', exampleLine)"
    by code_simp
  have "''abc123'' \<noteq> []" by simp
  from commit_once_first_seen [OF this first] first show ?thesis by simp
qed

subsection \<open>One set of SHAs for all repositories\<close>

lemma find_append_Some: "find P xs = Some x \<Longrightarrow> find P (xs @ ys) = Some x"
  by (induction xs) (auto split: if_splits)

lemma find_in_set: "find P xs = Some x \<Longrightarrow> x \<in> set xs"
  by (induction xs) (auto split: if_splits)

lemma commitListing_append:
  "commitListing w since (xs @ ys) = commitListing w since xs @ commitListing w since ys"
  by (simp add: commitListing_def)

lemma commitListing_repo:
  "x \<in> set (commitListing w since repos) \<Longrightarrow> fst x \<in> set repos"
  by (auto simp: commitListing_def branchListing_def)

text \<open>
  C9. The set of SHAs seen is one for the whole run. Let the repositories be scanned
  in the order \<open>earlier @ later\<close>, and let a SHA occur in a listing of an earlier
  repository, first on the branch \<open>branch\<close> of \<open>fullRepo\<close>. Then, whatever the later
  repositories list (the same SHA too, as a fork does), the snapshot has one commit
  event for it, and the event names that first repository and branch.
\<close>

theorem seenSHAs_shared_across_repos:
  assumes "h \<noteq> []"
    and "allRepos cfg w = earlier @ later"
    and "firstWithSha h (commitListing w since earlier) = Some (fullRepo, branch, line)"
  shows "filter (\<lambda>c. commitSha c = h) (commits (collectGitData cfg since w))
           = [commitOf fullRepo branch line]
         \<and> commit_fullRepo (commitOf fullRepo branch line) = fullRepo
         \<and> commit_repo (commitOf fullRepo branch line) = repoName fullRepo
         \<and> commit_branch (commitOf fullRepo branch line) = branch
         \<and> fullRepo \<in> set earlier"
proof -
  from assms(3) have "firstWithSha h (commitListing w since (allRepos cfg w))
      = Some (fullRepo, branch, line)"
    by (simp add: assms(2) commitListing_append firstWithSha_def find_append_Some)
  with assms(1) have "filter (\<lambda>c. commitSha c = h) (commits (collectGitData cfg since w))
           = [commitOf fullRepo branch line]"
    by (simp add: commits_with_sha recordCommit_def)
  moreover from assms(3) have "fullRepo \<in> set earlier"
    using commitListing_repo [of "(fullRepo, branch, line)" w since earlier]
    by (auto simp: firstWithSha_def dest: find_in_set)
  ultimately show ?thesis
    by (simp add: commitOf_def split: prod.splits)
qed

theorem seenSHAs_shared_across_repos_witness:
  "allRepos exampleConfig exampleGithub = [''acme/api''] @ [''fork/api'']
   \<and> firstWithSha ''abc123'' (commitListing exampleGithub exampleSince [''acme/api''])
       = Some (''acme/api'', ''main'', exampleLine)
   \<and> firstWithSha ''abc123'' (commitListing exampleGithub exampleSince [''fork/api''])
       = Some (''fork/api'', ''main'', exampleLine)
   \<and> filter (\<lambda>c. commitSha c = ''abc123'')
         (commits (collectGitData exampleConfig exampleSince exampleGithub))
       = [commitOf ''acme/api'' ''main'' exampleLine]
   \<and> commit_fullRepo (commitOf ''acme/api'' ''main'' exampleLine) = ''acme/api''"
proof -
  have repos: "allRepos exampleConfig exampleGithub = [''acme/api''] @ [''fork/api'']"
    by code_simp
  have first: "firstWithSha ''abc123'' (commitListing exampleGithub exampleSince [''acme/api''])
       = Some (''acme/api'', ''main'', exampleLine)"
    by code_simp
  have again: "firstWithSha ''abc123'' (commitListing exampleGithub exampleSince [''fork/api''])
       = Some (''fork/api'', ''main'', exampleLine)"
    by code_simp
  have "''abc123'' \<noteq> []" by simp
  from seenSHAs_shared_across_repos [OF this repos first] repos first again
  show ?thesis by simp
qed

subsection \<open>Pull requests: touched in the window\<close>

lemma Nil_least: "([]::string) \<le> s"
  by (cases s) simp_all

lemma inWindow_touched: "inWindow since p = touchedInWindow since p"
proof (cases "since = []")
  case True
  then show ?thesis by (simp add: inWindow_def touchedInWindow_def Nil_least)
next
  case False
  have "(truthy x \<and> geSince x since) = (\<exists>t. x = Some t \<and> since \<le> t)" for x
    using False by (cases x) (auto simp: truthy_def geSince_def)
  then show ?thesis by (simp add: inWindow_def touchedInWindow_def)
qed

lemma scanPRs_fst:
  "fst (scanPRs since fr ps (acc, rs)) = acc @ map (prOf fr) (filter (touchedInWindow since) ps)"
  by (induction ps arbitrary: acc rs) (simp_all add: inWindow_touched)

lemma scanRepo_prs:
  "scanRepo w since fr (seen, d) = (seen', d') \<Longrightarrow>
     prs d' = prs d @ map (\<lambda>(fr, p). prOf fr p)
       (filter (\<lambda>(fr, p). touchedInWindow since p) (prListing w [fr]))"
  using scanPRs_fst [of since fr "listed (gh_prList w fr)" "prs d" "reviews d"]
  by (auto simp: scanRepo_def prListing_def filter_map o_def split: prod.splits if_splits)

lemma prListing_Cons: "prListing w (fr # repos) = prListing w [fr] @ prListing w repos"
  by (simp add: prListing_def)

lemma scanRepos_prs:
  "scanRepos w since repos (seen, d) = (seen', d') \<Longrightarrow>
     prs d' = prs d @ map (\<lambda>(fr, p). prOf fr p)
       (filter (\<lambda>(fr, p). touchedInWindow since p) (prListing w repos))"
proof (induction repos arbitrary: seen d)
  case Nil
  then show ?case by (simp add: prListing_def)
next
  case (Cons fr repos)
  obtain s1 d1 where step: "scanRepo w since fr (seen, d) = (s1, d1)"
    by (cases "scanRepo w since fr (seen, d)")
  from Cons.prems step have "scanRepos w since repos (s1, d1) = (seen', d')" by simp
  from Cons.IH [OF this] scanRepo_prs [OF step] show ?case
    by (simp add: prListing_Cons [of w fr repos])
qed

lemma collectGitData_prs:
  "prs (collectGitData cfg since w) = map (\<lambda>(fr, p). prOf fr p)
       (filter (\<lambda>(fr, p). touchedInWindow since p) (prListing w (allRepos cfg w)))"
proof -
  obtain s d where sc: "scanRepos w since (allRepos cfg w) ({}, noActivity) = (s, d)"
    by (cases "scanRepos w since (allRepos cfg w) ({}, noActivity)")
  have "prs noActivity = []" by (simp add: noActivity_def)
  with scanRepos_prs [OF sc] show ?thesis
    by (simp add: collectGitData_def sc split: prod.splits)
qed

text \<open>
  C3. The pull requests of the snapshot are those the run reads that are touched in
  the window: created, or merged when a merge time is present, or closed when a close
  time is present, at or after \<open>since\<close>. The test of the program is that test, and it
  reads nothing else of a pull request: whatever its \<^verbatim>\<open>updatedAt\<close> is changed to, the
  test answers the same.
\<close>

theorem pr_included_iff_touched:
  "prs (collectGitData cfg since w) = map (\<lambda>(fr, p). prOf fr p)
       (filter (\<lambda>(fr, p). touchedInWindow since p) (prListing w (allRepos cfg w)))
   \<and> inWindow since p = touchedInWindow since p
   \<and> inWindow since (q\<lparr>pj_updatedAt := u\<rparr>) = inWindow since q"
  by (simp add: collectGitData_prs inWindow_touched) (simp add: touchedInWindow_def)

theorem pr_included_iff_touched_witness:
  "prs (collectGitData exampleConfig exampleSince exampleGithub)
     = [prOf ''acme/api'' examplePR, prOf ''acme/api'' mergedPR]
   \<and> touchedInWindow exampleSince examplePR
   \<and> touchedInWindow exampleSince mergedPR
   \<and> \<not> touchedInWindow exampleSince stalePR
   \<and> exampleSince \<le> pj_updatedAt stalePR
   \<and> \<not> inWindow exampleSince (stalePR\<lparr>pj_updatedAt := ''2024-05-02T23:00:00Z''\<rparr>)"
proof -
  have listing: "prListing exampleGithub (allRepos exampleConfig exampleGithub)
      = [(''acme/api'', examplePR), (''acme/api'', stalePR), (''acme/api'', mergedPR)]"
    by (simp add: prListing_def allRepos_def exampleConfig_def exampleGithub_def branchesOf_def
        str_split_def newline_def listed_def)
  have a: "touchedInWindow exampleSince examplePR"
    by (simp add: touchedInWindow_def exampleSince_def examplePR_def)
  have b: "touchedInWindow exampleSince mergedPR"
    by (simp add: touchedInWindow_def exampleSince_def mergedPR_def)
  have c: "\<not> touchedInWindow exampleSince stalePR"
    by (simp add: touchedInWindow_def exampleSince_def stalePR_def)
  have d: "exampleSince \<le> pj_updatedAt stalePR"
    by (simp add: exampleSince_def stalePR_def)
  from pr_included_iff_touched [where cfg = exampleConfig and since = exampleSince and w = exampleGithub
      and p = stalePR and q = stalePR and u = "''2024-05-02T23:00:00Z''"]
  show ?thesis by (simp add: listing a b c d)
qed

subsection \<open>Comments: one event for a remark\<close>

lemma filter_dedup:
  "filter (\<lambda>x. commentKey x = k) (dedupComments seen cs) =
     (if k \<in> seen then []
      else case find (\<lambda>x. commentKey x = k) cs of None \<Rightarrow> [] | Some c \<Rightarrow> [c])"
  by (induction cs arbitrary: seen) auto

lemma set_dedup: "set (dedupComments seen cs) \<subseteq> set cs"
  by (induction cs arbitrary: seen) auto

lemma colon_split:
  "CHR '':'' \<notin> set a \<Longrightarrow> CHR '':'' \<notin> set b \<Longrightarrow> a @ CHR '':'' # r = b @ CHR '':'' # s
     \<Longrightarrow> a = b \<and> r = s"
proof (induction a arbitrary: b)
  case Nil
  then show ?case by (cases b) auto
next
  case (Cons x a)
  then show ?case by (cases b) auto
qed

lemma trailingNumber_digits: "trailingNumber url = Some ds \<Longrightarrow> \<forall>c \<in> set ds. isDigit c"
proof -
  assume a: "trailingNumber url = Some ds"
  then obtain s where "url = Some s" and ds: "ds = rev (takeWhile isDigit (rev s))"
    by (cases url) (auto simp: trailingNumber_def Let_def split: if_splits)
  show ?thesis
    unfolding ds by (auto dest: set_takeWhileD)
qed

lemma colon_no_digit: "\<not> isDigit (CHR '':'')"
  by (simp add: isDigit_def)

lemma issueNumber_colonFree: "colonFree (comment_issueNumber (commentOf r fr c))"
proof (cases "trailingNumber (cj_target_url c)")
  case None
  then show ?thesis by (simp add: commentOf_def orElse_def colonFree_def)
next
  case (Some ds)
  from trailingNumber_digits [OF Some] colon_no_digit have "CHR '':'' \<notin> set ds"
    by auto
  with Some show ?thesis by (simp add: commentOf_def orElse_def colonFree_def)
qed

lemma commentListing_number:
  "x \<in> set (commentListing w since repos) \<Longrightarrow> colonFree (comment_issueNumber x)"
  by (auto simp: commentListing_def issueNumber_colonFree split: if_splits)

lemma key_tuple:
  assumes "namesColonFree x" "namesColonFree y"
    and "colonFree (comment_issueNumber x)" "colonFree (comment_issueNumber y)"
  shows "(commentKey x = commentKey y) = (commentTuple x = commentTuple y)"
proof
  assume k: "commentKey x = commentKey y"
  from assms k have 1: "comment_repo x = comment_repo y"
    and r1: "comment_author x @ '':'' @ comment_issueNumber x @ '':'' @ comment_createdAt x
           = comment_author y @ '':'' @ comment_issueNumber y @ '':'' @ comment_createdAt y"
    using colon_split [of "comment_repo x" "comment_repo y"]
    by (auto simp: commentKey_def namesColonFree_def colonFree_def)
  from assms r1 have 2: "comment_author x = comment_author y"
    and r2: "comment_issueNumber x @ '':'' @ comment_createdAt x
           = comment_issueNumber y @ '':'' @ comment_createdAt y"
    using colon_split [of "comment_author x" "comment_author y"]
    by (auto simp: namesColonFree_def colonFree_def)
  from assms r2 have "comment_issueNumber x = comment_issueNumber y"
    and "comment_createdAt x = comment_createdAt y"
    using colon_split [of "comment_issueNumber x" "comment_issueNumber y"]
    by (auto simp: colonFree_def)
  with 1 2 show "commentTuple x = commentTuple y" by (simp add: commentTuple_def)
next
  assume "commentTuple x = commentTuple y"
  then show "commentKey x = commentKey y" by (simp add: commentTuple_def commentKey_def)
qed

lemma scanRepo_comments:
  "scanRepo w since fr (seen, d) = (seen', d') \<Longrightarrow>
     comments d' = comments d @ commentListing w since [fr]"
  by (auto simp: scanRepo_def commentListing_def split: prod.splits if_splits)

lemma commentListing_Cons:
  "commentListing w since (fr # repos) = commentListing w since [fr] @ commentListing w since repos"
  by (simp add: commentListing_def)

lemma scanRepos_comments:
  "scanRepos w since repos (seen, d) = (seen', d') \<Longrightarrow>
     comments d' = comments d @ commentListing w since repos"
proof (induction repos arbitrary: seen d)
  case Nil
  then show ?case by (simp add: commentListing_def)
next
  case (Cons fr repos)
  obtain s1 d1 where step: "scanRepo w since fr (seen, d) = (s1, d1)"
    by (cases "scanRepo w since fr (seen, d)")
  from Cons.prems step have "scanRepos w since repos (s1, d1) = (seen', d')" by simp
  from Cons.IH [OF this] scanRepo_comments [OF step] show ?case
    by (simp add: commentListing_Cons [of w since fr repos])
qed

lemma collectGitData_comments:
  "comments (collectGitData cfg since w) =
     dedupComments {} (commentListing w since (allRepos cfg w))"
proof -
  obtain s d where sc: "scanRepos w since (allRepos cfg w) ({}, noActivity) = (s, d)"
    by (cases "scanRepos w since (allRepos cfg w) ({}, noActivity)")
  have "comments noActivity = []" by (simp add: noActivity_def)
  with scanRepos_comments [OF sc] show ?thesis
    by (simp add: collectGitData_def sc split: prod.splits)
qed

lemma find_cong_set: "(\<And>x. x \<in> set xs \<Longrightarrow> P x = Q x) \<Longrightarrow> find P xs = find Q xs"
  by (induction xs) auto

lemma find_Some_P: "find P xs = Some x \<Longrightarrow> P x \<and> x \<in> set xs"
  by (induction xs) (auto split: if_splits)

text \<open>
  C2. The comments a run reads come from two listings of each repository, the issue
  comments and the review comments. When records of them have the same repository,
  author, item number and creation timestamp, the snapshot has exactly one comment
  event for that tuple, and it is the first such record in the order read. The names
  of repositories and accounts have no colon, as on GitHub: the program joins the
  four parts with colons to make its key.
\<close>

theorem comment_once_first_seen:
  assumes names: "\<forall>x \<in> set (commentListing w since (allRepos cfg w)). namesColonFree x"
    and first: "find (\<lambda>x. commentTuple x = t) (commentListing w since (allRepos cfg w)) = Some c"
  shows "filter (\<lambda>x. commentTuple x = t) (comments (collectGitData cfg since w)) = [c]"
proof -
  let ?L = "commentListing w since (allRepos cfg w)"
  from find_Some_P [OF first] have c: "commentTuple c = t" "c \<in> set ?L" by simp_all
  have same: "(commentTuple x = t) = (commentKey x = commentKey c)" if "x \<in> set ?L" for x
    using key_tuple [of x c] names that c
      commentListing_number [of x w since] commentListing_number [of c w since]
    by auto
  then have "find (\<lambda>x. commentKey x = commentKey c) ?L = Some c"
    using first find_cong_set [of ?L "\<lambda>x. commentTuple x = t" "\<lambda>x. commentKey x = commentKey c"]
    by simp
  then have "filter (\<lambda>x. commentKey x = commentKey c) (dedupComments {} ?L) = [c]"
    by (simp add: filter_dedup)
  moreover have "filter (\<lambda>x. commentTuple x = t) (dedupComments {} ?L)
      = filter (\<lambda>x. commentKey x = commentKey c) (dedupComments {} ?L)"
    using same set_dedup [of "{}" ?L] by (intro filter_cong) auto
  ultimately show ?thesis by (simp add: collectGitData_comments)
qed

theorem comment_once_first_seen_witness:
  "list_all namesColonFree
     (commentListing exampleGithub exampleSince (allRepos exampleConfig exampleGithub))
   \<and> commentListing exampleGithub exampleSince (allRepos exampleConfig exampleGithub)
       = [commentOf False ''acme/api'' exampleIssueComment,
          commentOf True ''acme/api'' examplePullComment]
   \<and> commentTuple (commentOf False ''acme/api'' exampleIssueComment)
       = (''api'', ''bob'', ''7'', ''2024-05-02T11:00:00Z'')
   \<and> commentTuple (commentOf True ''acme/api'' examplePullComment)
       = (''api'', ''bob'', ''7'', ''2024-05-02T11:00:00Z'')
   \<and> filter (\<lambda>x. commentTuple x = (''api'', ''bob'', ''7'', ''2024-05-02T11:00:00Z''))
         (comments (collectGitData exampleConfig exampleSince exampleGithub))
       = [commentOf False ''acme/api'' exampleIssueComment]"
proof -
  let ?L = "commentListing exampleGithub exampleSince (allRepos exampleConfig exampleGithub)"
  have listing: "?L = [commentOf False ''acme/api'' exampleIssueComment,
          commentOf True ''acme/api'' examplePullComment]"
    by (simp add: commentListing_def allRepos_def exampleConfig_def exampleGithub_def
        branchesOf_def str_split_def newline_def listed_def)
  have t1: "commentTuple (commentOf False ''acme/api'' exampleIssueComment)
       = (''api'', ''bob'', ''7'', ''2024-05-02T11:00:00Z'')"
    by (simp add: commentTuple_def commentOf_def exampleIssueComment_def repoName_def
        str_split_def orElse_def trailingNumber_def isDigit_def)
  have t2: "commentTuple (commentOf True ''acme/api'' examplePullComment)
       = (''api'', ''bob'', ''7'', ''2024-05-02T11:00:00Z'')"
    by (simp add: commentTuple_def commentOf_def examplePullComment_def repoName_def
        str_split_def orElse_def trailingNumber_def isDigit_def)
  have names: "\<forall>x \<in> set ?L. namesColonFree x"
    using t1 t2 by (simp add: listing namesColonFree_def colonFree_def commentTuple_def)
  have first: "find (\<lambda>x. commentTuple x = (''api'', ''bob'', ''7'', ''2024-05-02T11:00:00Z'')) ?L
       = Some (commentOf False ''acme/api'' exampleIssueComment)"
    by (simp add: listing t1)
  from comment_once_first_seen [OF names first] names listing t1 t2 show ?thesis
    by (simp add: list_all_iff)
qed

section \<open>Properties of the author lookups\<close>

lemma str_includes_iff: "str_includes s needle = isSubstring needle s"
proof (induction s)
  case Nil
  show ?case by (auto simp: isSubstring_def)
next
  case (Cons x xs)
  have pre: "(take (length needle) (x # xs) = needle) = (\<exists>rest. x # xs = needle @ rest)"
  proof
    assume "take (length needle) (x # xs) = needle"
    then have "x # xs = needle @ drop (length needle) (x # xs)"
      by (metis append_take_drop_id)
    then show "\<exists>rest. x # xs = needle @ rest" ..
  next
    assume "\<exists>rest. x # xs = needle @ rest"
    then show "take (length needle) (x # xs) = needle" by auto
  qed
  have "isSubstring needle (x # xs) =
      ((\<exists>rest. x # xs = needle @ rest) \<or> isSubstring needle xs)"
  proof
    assume "isSubstring needle (x # xs)"
    then obtain front rest where eq: "x # xs = front @ needle @ rest"
      by (auto simp: isSubstring_def)
    show "(\<exists>rest. x # xs = needle @ rest) \<or> isSubstring needle xs"
    proof (cases front)
      case Nil
      with eq show ?thesis by auto
    next
      case (Cons y front')
      with eq have "xs = front' @ needle @ rest" by simp
      then show ?thesis by (auto simp: isSubstring_def)
    qed
  next
    assume "(\<exists>rest. x # xs = needle @ rest) \<or> isSubstring needle xs"
    then show "isSubstring needle (x # xs)"
    proof
      assume "\<exists>rest. x # xs = needle @ rest"
      then obtain rest where "x # xs = [] @ needle @ rest" by auto
      then show ?thesis unfolding isSubstring_def by blast
    next
      assume "isSubstring needle xs"
      then obtain front rest where "xs = front @ needle @ rest"
        by (auto simp: isSubstring_def)
      then have "x # xs = (x # front) @ needle @ rest" by simp
      then show ?thesis unfolding isSubstring_def by blast
    qed
  qed
  with pre Cons.IH show ?case by simp
qed

lemma includes_fuzzyMatch:
  "(str_includes (lower name) (lower key) \<or> str_includes (lower key) (lower name))
     = fuzzyMatch lower name key"
  by (simp add: fuzzyMatch_def str_includes_iff)

lemma mapNameEntries_find:
  "mapNameEntries lower amap name =
     (case find (\<lambda>(key, val). fuzzyMatch lower name key) amap of
        None \<Rightarrow> name | Some (key, val) \<Rightarrow> val)"
proof (induction amap)
  case Nil
  show ?case by simp
next
  case (Cons e amap)
  obtain key val where e: "e = (key, val)" by (cases e)
  show ?case
    by (cases "fuzzyMatch lower name key") (simp_all add: e includes_fuzzyMatch Cons.IH)
qed

lemma map_of_distinct:
  "distinct (map fst amap) \<Longrightarrow> (k, v) \<in> set amap \<Longrightarrow> map_of amap k = Some v"
  by simp

lemma map_of_absent: "k \<notin> fst ` set amap \<Longrightarrow> map_of amap k = None"
  by (simp add: map_of_eq_None_iff)

lemma authorName_inherited:
  "authorName [] ''constructor'' = ''function Object() { [native code] }''"
  by (simp add: authorName_def objectPrototype_def)

text \<open>
  C4, as the program has it. \<^verbatim>\<open>mapName\<close>, the lookup of the Linear text, is fuzzy:
  for a name that is not empty it gives the value of the first entry whose key
  matches the name (the one contained in the other, case ignored), and the name
  itself when no key matches; a missing or empty name gives \<open>Unassigned\<close>. The lookup
  \<^verbatim>\<open>n\<close> of \<^verbatim>\<open>formatRawData\<close> is exact: it gives the value of the entry whose key is
  the identity when that value is not empty, and the identity itself when that value
  is empty; when no key is the identity, it gives the identity itself, unless the
  identity is the name of a member that every object inherits. Both are total
  functions.
\<close>

theorem author_lookup:
  "(name \<noteq> [] \<longrightarrow>
      mapName lower amap (Some name) =
        (case find (\<lambda>(key, val). fuzzyMatch lower name key) amap of
           None \<Rightarrow> name | Some (key, val) \<Rightarrow> val))
   \<and> mapName lower amap None = ''Unassigned''
   \<and> mapName lower amap (Some []) = ''Unassigned''
   \<and> (distinct (map fst amap) \<longrightarrow> (author, v) \<in> set amap \<longrightarrow> v \<noteq> []
        \<longrightarrow> authorName amap author = v)
   \<and> (distinct (map fst amap) \<longrightarrow> (author, []) \<in> set amap
        \<longrightarrow> authorName amap author = author)
   \<and> (author \<notin> fst ` set amap \<longrightarrow> author \<notin> fst ` set objectPrototype
        \<longrightarrow> authorName amap author = author)"
proof -
  have fuzzy: "name \<noteq> [] \<longrightarrow>
      mapName lower amap (Some name) =
        (case find (\<lambda>(key, val). fuzzyMatch lower name key) amap of
           None \<Rightarrow> name | Some (key, val) \<Rightarrow> val)"
    by (simp add: mapName_def mapNameEntries_find)
  have missing: "mapName lower amap None = ''Unassigned''"
    "mapName lower amap (Some []) = ''Unassigned''"
    by (simp_all add: mapName_def)
  have own: "authorName amap author = v"
    if "distinct (map fst amap)" "(author, v) \<in> set amap" "v \<noteq> []"
    using that by (simp add: authorName_def map_of_distinct)
  have empty: "authorName amap author = author"
    if "distinct (map fst amap)" "(author, []) \<in> set amap"
    using that by (simp add: authorName_def map_of_distinct)
  have absent: "authorName amap author = author"
    if "author \<notin> fst ` set amap" "author \<notin> fst ` set objectPrototype"
    using that by (simp add: authorName_def map_of_absent)
  from fuzzy missing own empty absent show ?thesis by blast
qed

text \<open>
  C4 as stated fails twice. In \<^verbatim>\<open>formatRawData\<close> the identity \<open>JDoe\<close> matches the key
  \<open>jdoe\<close> with the case ignored, and is rendered unmapped. In \<^verbatim>\<open>mapName\<close> the empty
  identity, which no key of the empty map matches, is not returned unchanged.
\<close>

theorem author_lookup_counterexample:
  "fuzzyMatch asciiLowerCase ''JDoe'' ''jdoe''
   \<and> authorName [(''jdoe'', ''John'')] ''JDoe'' = ''JDoe''
   \<and> authorName [(''jdoe'', ''John'')] ''JDoe'' \<noteq> ''John''
   \<and> find (\<lambda>(key, val). fuzzyMatch asciiLowerCase [] key) [] = None
   \<and> mapName asciiLowerCase [] (Some []) = ''Unassigned''
   \<and> mapName asciiLowerCase [] (Some []) \<noteq> []"
  by (simp add: fuzzyMatch_def str_includes_iff [symmetric] asciiLowerCase_def
      asciiLowerChar_def authorName_def objectPrototype_def mapName_def)

theorem author_lookup_witness:
  "find (\<lambda>(key, val). fuzzyMatch asciiLowerCase ''John Doe'' key)
       [(''jane'', ''Jane''), (''doe'', ''JD''), (''bot'', [])] = Some (''doe'', ''JD'')
   \<and> mapName asciiLowerCase [(''jane'', ''Jane''), (''doe'', ''JD''), (''bot'', [])]
         (Some ''John Doe'') = ''JD''
   \<and> find (\<lambda>(key, val). fuzzyMatch asciiLowerCase ''Ann'' key)
       [(''jane'', ''Jane''), (''doe'', ''JD''), (''bot'', [])] = None
   \<and> mapName asciiLowerCase [(''jane'', ''Jane''), (''doe'', ''JD''), (''bot'', [])]
         (Some ''Ann'') = ''Ann''
   \<and> authorName [(''jane'', ''Jane''), (''doe'', ''JD''), (''bot'', [])] ''doe'' = ''JD''
   \<and> authorName [(''jane'', ''Jane''), (''doe'', ''JD''), (''bot'', [])] ''bot'' = ''bot''
   \<and> authorName [(''jane'', ''Jane''), (''doe'', ''JD''), (''bot'', [])] ''Doe'' = ''Doe''"
proof -
  let ?m = "[(''jane'', ''Jane''), (''doe'', ''JD''), (''bot'', [])]"
  have m: "fuzzyMatch asciiLowerCase ''John Doe'' ''doe''"
     "\<not> fuzzyMatch asciiLowerCase ''John Doe'' ''jane''"
     "\<not> fuzzyMatch asciiLowerCase ''Ann'' ''doe''"
     "\<not> fuzzyMatch asciiLowerCase ''Ann'' ''jane''"
     "\<not> fuzzyMatch asciiLowerCase ''Ann'' ''bot''"
    by (simp_all add: fuzzyMatch_def str_includes_iff [symmetric] asciiLowerCase_def
        asciiLowerChar_def)
  have d: "distinct (map fst ?m)" by simp
  have own: "(''doe'', ''JD'') \<in> set ?m" "(''bot'', []) \<in> set ?m" by simp_all
  have absent: "''Doe'' \<notin> fst ` set ?m" "''Doe'' \<notin> fst ` set objectPrototype"
    by (simp_all add: objectPrototype_def)
  from author_lookup [where lower = asciiLowerCase and name = "''John Doe''" and amap = ?m
      and author = "''doe''" and v = "''JD''"]
    author_lookup [where lower = asciiLowerCase and name = "''Ann''" and amap = ?m
      and author = "''bot''" and v = "''JD''"]
    author_lookup [where lower = asciiLowerCase and name = "''Ann''" and amap = ?m
      and author = "''Doe''" and v = "''JD''"]
  show ?thesis using m d own absent by simp
qed

section \<open>Properties of fetchLinearActivity\<close>

lemma mset_insertBy: "mset (insertBy cmp x ys) = add_mset x (mset ys)"
  by (induction ys) simp_all

lemma mset_arraySort: "mset (arraySort cmp xs) = mset xs"
  by (induction xs) (simp_all add: arraySort_def mset_insertBy)

lemma set_insertBy: "set (insertBy cmp x ys) = insert x (set ys)"
  by (induction ys) auto

lemma sorted_insertBy:
  "sorted_wrt (notOlder dateMs) ys \<Longrightarrow> sorted_wrt (notOlder dateMs) (insertBy (newestFirst dateMs) x ys)"
proof (induction ys)
  case Nil
  show ?case by simp
next
  case (Cons y ys)
  show ?case
  proof (cases "newestFirst dateMs x y \<le> 0")
    case True
    with Cons.prems show ?thesis
      by (auto simp: notOlder_def newestFirst_def)
  next
    case False
    with Cons show ?thesis
      by (auto simp: notOlder_def newestFirst_def set_insertBy)
  qed
qed

lemma sorted_arraySort: "sorted_wrt (notOlder dateMs) (arraySort (newestFirst dateMs) xs)"
  by (induction xs) (simp_all add: arraySort_def sorted_insertBy)

lemma categorize_comments:
  "recentComments (categorize dateMs since is acc) = recentComments acc @ allLinearComments is"
  by (induction "is" arbitrary: acc) (simp_all add: allLinearComments_def)

lemma length_cappedBody: "length (cappedBody body) \<le> 503"
  by (simp add: cappedBody_def)

lemma fetch_recentComments:
  assumes "fetchLinearActivity dateMs since answer = Inr r"
  shows "\<exists>res. answer = Inr res \<and> recentComments r =
      take 20 (arraySort (newestFirst dateMs) (allLinearComments (lres_issues res)))"
  using assms
  by (auto simp: fetchLinearActivity_def categorize_comments split: sum.splits if_splits option.splits)

text \<open>
  C10. When \<^verbatim>\<open>fetchLinearActivity\<close> returns, \<^verbatim>\<open>recentComments\<close> has at most 20
  entries, ordered newest first; they are the first 20 of all comments of all issues
  put in that order; every body has at most 500 characters and the ellipsis, and the
  body of a comment is the original, or its first 500 characters and the ellipsis
  when the original is longer.
\<close>

theorem recentComments_newest_twenty:
  assumes "fetchLinearActivity dateMs since answer = Inr r"
  shows "length (recentComments r) \<le> 20
     \<and> sorted_wrt (notOlder dateMs) (recentComments r)
     \<and> (\<exists>res ordered. answer = Inr res
           \<and> mset ordered = mset (allLinearComments (lres_issues res))
           \<and> sorted_wrt (notOlder dateMs) ordered
           \<and> recentComments r = take 20 ordered)
     \<and> (\<forall>c \<in> set (recentComments r). length (lc_body c) \<le> 503)
     \<and> lc_body (linearCommentOf issue j) =
         (if 500 < length (lcj_body j) then take 500 (lcj_body j) @ ''...'' else lcj_body j)"
proof -
  from fetch_recentComments [OF assms] obtain res where res: "answer = Inr res"
    and rc: "recentComments r =
      take 20 (arraySort (newestFirst dateMs) (allLinearComments (lres_issues res)))"
    by blast
  let ?ordered = "arraySort (newestFirst dateMs) (allLinearComments (lres_issues res))"
  have so: "sorted_wrt (notOlder dateMs) ?ordered" by (rule sorted_arraySort)
  have "set (recentComments r) \<subseteq> set ?ordered"
    unfolding rc by (rule set_take_subset)
  also have "set ?ordered = set (allLinearComments (lres_issues res))"
    using mset_arraySort [of "newestFirst dateMs" "allLinearComments (lres_issues res)"]
    by (metis set_mset_mset)
  finally have "\<forall>c \<in> set (recentComments r). length (lc_body c) \<le> 503"
    by (auto simp: allLinearComments_def linearCommentOf_def length_cappedBody)
  moreover have "sorted_wrt (notOlder dateMs) (recentComments r)"
    unfolding rc using so by (rule sorted_wrt_take)
  moreover have "length (recentComments r) \<le> 20"
    unfolding rc by simp
  moreover have "\<exists>res ordered. answer = Inr res
           \<and> mset ordered = mset (allLinearComments (lres_issues res))
           \<and> sorted_wrt (notOlder dateMs) ordered
           \<and> recentComments r = take 20 ordered"
    using res rc so mset_arraySort by blast
  ultimately show ?thesis
    by (simp add: linearCommentOf_def cappedBody_def)
qed


theorem recentComments_newest_twenty_witness:
  "fetchLinearActivity exampleDateMs ''2024-05-02T00:00:00.000Z'' exampleAnswer
     = Inr exampleLinear
   \<and> length (allLinearComments [oldIssue, newIssue]) = 26
   \<and> length (recentComments exampleLinear) \<le> 20
   \<and> sorted_wrt (notOlder exampleDateMs) (recentComments exampleLinear)
   \<and> length (lcj_body longComment) = 600
   \<and> lc_body (linearCommentOf newIssue longComment) = replicate 500 (CHR ''x'') @ ''...''"
proof -
  have ex: "fetchLinearActivity exampleDateMs ''2024-05-02T00:00:00.000Z'' exampleAnswer
      = Inr exampleLinear"
    by (simp add: fetchLinearActivity_def exampleAnswer_def exampleLinear_def oldIssue_def
        newIssue_def oldComment_def longComment_def exampleDateMs_def arraySort_def
        newestFirst_def linearCommentOf_def cappedBody_def orElse_def eval_nat_numeral)
  have n: "length (allLinearComments [oldIssue, newIssue]) = 26"
    by (simp add: allLinearComments_def oldIssue_def newIssue_def)
  from recentComments_newest_twenty [OF ex, of newIssue longComment] ex n
  show ?thesis by (simp add: longComment_def)
qed

section \<open>Properties of main\<close>

subsection \<open>The shape of a run\<close>

lemma main_pipeline:
  assumes "configAccepted e" and "totalActivity (snapshot e) \<noteq> 0"
  shows "trace (main e) = fst (structuringStep e (renderedText e))
            @ trace (formattingStep e (snapshot e)
                 (fst (snd (structuringStep e (renderedText e))))
                 (snd (snd (structuringStep e (renderedText e)))))"
    and "exitCode (main e) = exitCode (formattingStep e (snapshot e)
                 (fst (snd (structuringStep e (renderedText e))))
                 (snd (snd (structuringStep e (renderedText e)))))"
  using assms
  by (auto simp: main_def configAccepted_def snapshot_def renderedText_def split: prod.splits)

lemma main_stops:
  "\<not> configAccepted e \<Longrightarrow>
     main e = \<lparr>trace = [Log ''ERROR: slackWebhookUrl not configured''], exitCode = 1\<rparr>"
  "configAccepted e \<Longrightarrow> totalActivity (snapshot e) = 0 \<Longrightarrow>
     main e = \<lparr>trace = [Log ''No activity found. Skipping summary.''], exitCode = 0\<rparr>"
  by (auto simp: main_def configAccepted_def snapshot_def)

lemma structuringStep_degraded:
  assumes "\<not> truthy (env_apiKey e) \<or> (\<exists>err. structuringOutcome e = Inl err)
             \<or> structuringOutcome e = Inr []"
  shows "snd (structuringStep e (renderedText e)) = (renderedText e, False)"
  using assms
  by (auto simp: structuringStep_def structuringOutcome_def split: prod.splits sum.splits)

lemma structuringStep_structured:
  assumes "truthy (env_apiKey e)" and "structuringOutcome e = Inr text" and "text \<noteq> []"
  shows "snd (structuringStep e (renderedText e)) = (text, True)"
  using assms
  by (auto simp: structuringStep_def structuringOutcome_def split: prod.splits sum.splits)

lemma structuringStep_actions:
  "a \<in> set (fst (structuringStep e text)) \<Longrightarrow>
     (\<exists>msg. a = Log msg)
     \<or> a = Fetch openrouterUrl (geminiRequest (orElse (env_apiKey e) [])
              (geminiPrompt (ticketPattern (env_config e)) text (authorMap (env_config e))))"
  by (auto simp: structuringStep_def preprocessWithGemini_def Let_def split: sum.splits if_splits)

lemma structuringStep_no_later_calls:
  "filter isFormattingCall (fst (structuringStep e text)) = []"
  "filter isDelivery (fst (structuringStep e text)) = []"
  by (auto simp: filter_empty_conv isFormattingCall_def isDelivery_def geminiRequest_def
      dest!: structuringStep_actions)

lemma postToSlack_calls:
  "filter isFormattingCall (trace (postToSlack e summary)) = []"
  by (auto simp: postToSlack_def isFormattingCall_def split: sum.splits)

lemma formattingStep_outcome:
  "formattingStep e d text pre =
     (case formattingOutcome e text pre of
        Inl err \<Rightarrow>
          \<lparr>trace = [Log (''Running LLM summary ('' @ theCommand (env_config e) @ '')...''),
                    ExecSync (theCommand (env_config e)) (llmOptions e text pre),
                    Log (''ERROR: '' @ err)],
           exitCode = 1\<rparr>
      | Inr summary \<Rightarrow>
          if summary = [] then
            \<lparr>trace = [Log (''Running LLM summary ('' @ theCommand (env_config e) @ '')...''),
                      ExecSync (theCommand (env_config e)) (llmOptions e text pre),
                      Log ''ERROR: Empty summary from LLM''],
             exitCode = 1\<rparr>
          else if env_dryRun e then
            \<lparr>trace = [Log (''Running LLM summary ('' @ theCommand (env_config e) @ '')...''),
                      ExecSync (theCommand (env_config e)) (llmOptions e text pre),
                      Log (''DRY RUN '' @ emDash @ '' would post to Slack:''),
                      Print ''---'', Print summary, Print ''---'', Print []]
                      @ (if pre
                         then [Print ''Gemini structured data:'', Print text, Print []]
                         else [])
                      @ [Print (countsLine d)],
             exitCode = 0\<rparr>
          else
            \<lparr>trace = [Log (''Running LLM summary ('' @ theCommand (env_config e) @ '')...''),
                      ExecSync (theCommand (env_config e)) (llmOptions e text pre)]
                      @ trace (postToSlack e summary),
             exitCode = exitCode (postToSlack e summary)\<rparr>)"
  by (simp add: formattingStep_def formattingOutcome_def generateSlackSummary_def split: sum.splits)

lemma formattingStep_failed:
  assumes "(\<exists>err. formattingOutcome e text pre = Inl err) \<or> formattingOutcome e text pre = Inr []"
  shows "exitCode (formattingStep e d text pre) = 1"
    and "\<exists>msg. last (trace (formattingStep e d text pre)) = Log (''ERROR: '' @ msg)"
    and "filter isDelivery (trace (formattingStep e d text pre)) = []"
proof -
  from assms consider err where "formattingOutcome e text pre = Inl err"
    | "formattingOutcome e text pre = Inr []" by blast
  then have "exitCode (formattingStep e d text pre) = 1
     \<and> (\<exists>msg. last (trace (formattingStep e d text pre)) = Log (''ERROR: '' @ msg))
     \<and> filter isDelivery (trace (formattingStep e d text pre)) = []"
  proof cases
    case 1
    then show ?thesis by (simp add: formattingStep_outcome isDelivery_def)
  next
    case 2
    then show ?thesis by (simp add: formattingStep_outcome isDelivery_def)
  qed
  then show "exitCode (formattingStep e d text pre) = 1"
    and "\<exists>msg. last (trace (formattingStep e d text pre)) = Log (''ERROR: '' @ msg)"
    and "filter isDelivery (trace (formattingStep e d text pre)) = []"
    by simp_all
qed

lemma formattingStep_calls:
  "filter isFormattingCall (trace (formattingStep e d text pre))
     = [ExecSync (theCommand (env_config e)) (llmOptions e text pre)]"
proof (cases "formattingOutcome e text pre")
  case (Inl err)
  then show ?thesis by (simp add: formattingStep_outcome isFormattingCall_def)
next
  case (Inr summary)
  then show ?thesis
    by (simp add: formattingStep_outcome isFormattingCall_def postToSlack_calls)
qed

lemma formattingOutcome_exec:
  "formattingOutcome e text pre =
     (case env_execSync e (theCommand (env_config e)) (llmOptions e text pre) of
        Inl err \<Rightarrow> Inl (''LLM failed ('' @ theCommand (env_config e) @ ''): '' @ err)
      | Inr out \<Rightarrow> Inr (env_trim e out))"
  by (simp add: formattingOutcome_def generateSlackSummary_def)

lemma main_formatting_call:
  assumes "ExecSync command opts \<in> set (trace (main e))"
  shows "configAccepted e \<and> totalActivity (snapshot e) \<noteq> 0
     \<and> command = theCommand (env_config e)
     \<and> opts = llmOptions e (fst (snd (structuringStep e (renderedText e))))
                 (snd (snd (structuringStep e (renderedText e))))"
proof -
  have acc: "configAccepted e"
    using assms main_stops(1) [of e] by (cases "configAccepted e") auto
  have tot: "totalActivity (snapshot e) \<noteq> 0"
    using assms acc main_stops(2) [of e] by (cases "totalActivity (snapshot e) = 0") auto
  let ?sd = "fst (snd (structuringStep e (renderedText e)))"
  let ?pre = "snd (snd (structuringStep e (renderedText e)))"
  from assms have "ExecSync command opts \<in> set (filter isFormattingCall (trace (main e)))"
    by (simp add: isFormattingCall_def)
  then have "ExecSync command opts \<in> set [ExecSync (theCommand (env_config e)) (llmOptions e ?sd ?pre)]"
    by (simp only: main_pipeline(1) [OF acc tot] filter_append structuringStep_no_later_calls
        formattingStep_calls append_Nil)
  with acc tot show ?thesis by simp
qed

lemma join_adjacent:
  "\<exists>front rest. str_join sep (xs @ a # b # ys) = front @ a @ sep @ b @ rest"
proof (induction xs)
  case Nil
  show ?case
  proof (cases ys)
    case Nil
    then have "str_join sep ([] @ a # b # ys) = [] @ a @ sep @ b @ []" by simp
    then show ?thesis by blast
  next
    case (Cons y ys')
    then have "str_join sep ([] @ a # b # ys) = [] @ a @ sep @ b @ (sep @ str_join sep (y # ys'))"
      by simp
    then show ?thesis by blast
  qed
next
  case (Cons x xs)
  then obtain front rest where "str_join sep (xs @ a # b # ys) = front @ a @ sep @ b @ rest"
    by blast
  moreover have "str_join sep ((x # xs) @ a # b # ys) = x @ sep @ str_join sep (xs @ a # b # ys)"
    by (cases xs) simp_all
  ultimately have "str_join sep ((x # xs) @ a # b # ys) = (x @ sep @ front) @ a @ sep @ b @ rest"
    by simp
  then show ?case by blast
qed

lemma slackPrompt_label:
  "isSubstring ((if pre then ''ORGANIZED ACTIVITY DATA'' else ''RAW ACTIVITY DATA'') @ '':''
       @ [newline] @ text) (slackPrompt e text pre)"
proof -
  let ?label = "(if pre then ''ORGANIZED ACTIVITY DATA'' else ''RAW ACTIVITY DATA'') @ '':''"
  have "\<exists>l1 l2 l3 l4 ys.
      slackPrompt e text pre = str_join [newline] ([l1, l2, l3, l4] @ ?label # text # ys)"
    unfolding slackPrompt_def append_Cons append_Nil by (intro exI) (rule refl)
  then obtain l1 l2 l3 l4 ys where
    "slackPrompt e text pre = str_join [newline] ([l1, l2, l3, l4] @ ?label # text # ys)"
    by blast
  with join_adjacent [of "[newline]" "[l1, l2, l3, l4]" "?label" "text" ys]
  obtain front rest where "slackPrompt e text pre = front @ ?label @ [newline] @ text @ rest"
    by auto
  then have "slackPrompt e text pre =
      front @ ((if pre then ''ORGANIZED ACTIVITY DATA'' else ''RAW ACTIVITY DATA'') @ '':''
                 @ [newline] @ text) @ rest"
    by simp
  then show ?thesis unfolding isSubstring_def by blast
qed

lemma main_degraded:
  assumes "configAccepted e" and "totalActivity (snapshot e) \<noteq> 0"
    and "\<not> truthy (env_apiKey e) \<or> (\<exists>err. structuringOutcome e = Inl err)
           \<or> structuringOutcome e = Inr []"
  shows "filter isFormattingCall (trace (main e))
           = [ExecSync (theCommand (env_config e)) (llmOptions e (renderedText e) False)]"
    and "exitCode (main e) = exitCode (formattingStep e (snapshot e) (renderedText e) False)"
    and "filter isDelivery (trace (main e))
           = filter isDelivery (trace (formattingStep e (snapshot e) (renderedText e) False))"
  using structuringStep_degraded [OF assms(3)]
  by (simp_all add: main_pipeline [OF assms(1,2)] structuringStep_no_later_calls
      formattingStep_calls)

lemma main_degraded_call:
  assumes "configAccepted e" and "totalActivity (snapshot e) \<noteq> 0"
    and "\<not> truthy (env_apiKey e) \<or> (\<exists>err. structuringOutcome e = Inl err)
           \<or> structuringOutcome e = Inr []"
  shows "ExecSync (theCommand (env_config e)) (llmOptions e (renderedText e) False)
           \<in> set (trace (main e))"
proof -
  have "ExecSync (theCommand (env_config e)) (llmOptions e (renderedText e) False)
      \<in> set (filter isFormattingCall (trace (main e)))"
    by (simp add: main_degraded(1) [OF assms])
  then show ?thesis by simp
qed

subsection \<open>The example runs\<close>

lemma example_activity:
  "totalActivity (collectGitData exampleConfig exampleSince exampleGithub) \<noteq> 0"
proof -
  have "firstWithSha ''abc123''
       (commitListing exampleGithub exampleSince (allRepos exampleConfig exampleGithub))
     = Some (''acme/api'', ''main'', exampleLine)"
    by code_simp
  then have "filter (\<lambda>c. commitSha c = ''abc123'')
      (commits (collectGitData exampleConfig exampleSince exampleGithub))
      = [recordCommit (''acme/api'', ''main'', exampleLine)]"
    by (simp add: commits_with_sha)
  then have "commits (collectGitData exampleConfig exampleSince exampleGithub) \<noteq> []"
    by auto
  then show ?thesis by (simp add: totalActivity_def)
qed

lemma example_snapshots:
  "snapshot exampleEnv = collectGitData exampleConfig exampleSince exampleGithub"
  "snapshot degradedEnv = collectGitData exampleConfig exampleSince exampleGithub"
  "snapshot failingEnv = collectGitData exampleConfig exampleSince exampleGithub"
  "snapshot timeoutEnv = collectGitData exampleConfig exampleSince exampleGithub"
  by (simp_all add: snapshot_def exampleEnv_def degradedEnv_def failingEnv_def timeoutEnv_def)

lemma example_accepted:
  "configAccepted exampleEnv" "configAccepted degradedEnv" "configAccepted failingEnv"
  "configAccepted timeoutEnv" "configAccepted quietEnv"
  by (simp_all add: configAccepted_def webhookMissing_def exampleEnv_def degradedEnv_def
      failingEnv_def timeoutEnv_def quietEnv_def exampleConfig_def)

lemma example_command:
  "theCommand (env_config exampleEnv) = ''claude -p -''"
  "theCommand (env_config degradedEnv) = ''claude -p -''"
  "theCommand (env_config failingEnv) = ''claude -p -''"
  "theCommand (env_config timeoutEnv) = ''claude -p -''"
  by (simp_all add: theCommand_def orElse_def exampleEnv_def degradedEnv_def failingEnv_def
      timeoutEnv_def exampleConfig_def)

lemma degraded_outcome:
  "structuringOutcome degradedEnv = Inl ''fetch failed''"
  "structuringOutcome timeoutEnv = Inl ''fetch failed''"
  by (simp_all add: structuringOutcome_def preprocessWithGemini_def Let_def degradedEnv_def
      timeoutEnv_def exampleEnv_def rejectedFetch_def)

subsection \<open>Stage 1 absent or failing\<close>

text \<open>
  C5. In a run that reaches the pipeline (the configuration accepted, some activity
  found), let the structuring stage be absent (no key), throw, or return the empty
  string. Then the formatting stage is called, once, and its prompt is made from the
  rendered text unchanged, labelled as raw data. The run exits as the formatting
  stage and the delivery decide: with code 0 when the command yields a summary and
  the run is a dry run or the POST is answered with success.
\<close>

theorem structuring_failure_falls_back:
  assumes "configAccepted e" and "totalActivity (snapshot e) \<noteq> 0"
    and "\<not> truthy (env_apiKey e) \<or> (\<exists>err. structuringOutcome e = Inl err)
           \<or> structuringOutcome e = Inr []"
  shows "filter isFormattingCall (trace (main e))
           = [ExecSync (theCommand (env_config e)) (llmOptions e (renderedText e) False)]
     \<and> opt_input (llmOptions e (renderedText e) False) = slackPrompt e (renderedText e) False
     \<and> isSubstring (''RAW ACTIVITY DATA:'' @ [newline] @ renderedText e)
           (slackPrompt e (renderedText e) False)
     \<and> exitCode (main e) = exitCode (formattingStep e (snapshot e) (renderedText e) False)
     \<and> (\<forall>summary. formattingOutcome e (renderedText e) False = Inr summary \<and> summary \<noteq> []
            \<and> env_dryRun e \<longrightarrow> exitCode (main e) = 0)
     \<and> (\<forall>summary res. formattingOutcome e (renderedText e) False = Inr summary \<and> summary \<noteq> []
            \<and> \<not> env_dryRun e
            \<and> env_fetch e (display (slackWebhookUrl (env_config e))) (slackRequest summary) = Inr res
            \<and> res_ok res \<longrightarrow> exitCode (main e) = 0)"
proof -
  note m = main_degraded [OF assms]
  have "isSubstring (''RAW ACTIVITY DATA:'' @ [newline] @ renderedText e)
           (slackPrompt e (renderedText e) False)"
    using slackPrompt_label [of False "renderedText e" e] by simp
  then show ?thesis
    by (simp add: m formattingStep_outcome llmOptions_def postToSlack_def)
qed

theorem structuring_failure_falls_back_witness:
  "truthy (env_apiKey degradedEnv)
   \<and> structuringOutcome degradedEnv = Inl ''fetch failed''
   \<and> filter isFormattingCall (trace (main degradedEnv))
       = [ExecSync ''claude -p -'' (llmOptions degradedEnv (renderedText degradedEnv) False)]
   \<and> isSubstring (''RAW ACTIVITY DATA:'' @ [newline] @ renderedText degradedEnv)
        (opt_input (llmOptions degradedEnv (renderedText degradedEnv) False))
   \<and> exitCode (main degradedEnv) = 0"
proof -
  have key: "truthy (env_apiKey degradedEnv)"
    by (simp add: truthy_def degradedEnv_def exampleEnv_def)
  have tot: "totalActivity (snapshot degradedEnv) \<noteq> 0"
    by (simp add: example_snapshots example_activity)
  have deg: "\<not> truthy (env_apiKey degradedEnv) \<or> (\<exists>err. structuringOutcome degradedEnv = Inl err)
           \<or> structuringOutcome degradedEnv = Inr []"
    by (simp add: degraded_outcome)
  have out: "formattingOutcome degradedEnv (renderedText degradedEnv) False = Inr ''*Daily Dev Summary*''"
    by (simp add: formattingOutcome_def generateSlackSummary_def degradedEnv_def exampleEnv_def
        asciiTrim_def isAsciiSpace_def)
  have live: "\<not> env_dryRun degradedEnv" by (simp add: degradedEnv_def exampleEnv_def)
  have post: "env_fetch degradedEnv (display (slackWebhookUrl (env_config degradedEnv)))
      (slackRequest ''*Daily Dev Summary*'') = Inr okResponse"
    by (simp add: degradedEnv_def exampleEnv_def exampleConfig_def display_def openrouterUrl_def)
  have ok: "res_ok okResponse" by (simp add: okResponse_def)
  from structuring_failure_falls_back [OF example_accepted(2) tot deg] key out live post ok
  show ?thesis
    by (simp add: degraded_outcome example_command)
qed

subsection \<open>Stage 2 failing\<close>

lemma main_formatting_failed:
  assumes "ExecSync command opts \<in> set (trace (main e))"
    and "(\<exists>err. env_execSync e command opts = Inl err)
         \<or> (\<exists>out. env_execSync e command opts = Inr out \<and> env_trim e out = [])"
  shows "exitCode (main e) = 1
     \<and> (\<exists>msg. last (trace (main e)) = Log (''ERROR: '' @ msg))
     \<and> filter isDelivery (trace (main e)) = []"
proof -
  let ?sd = "fst (snd (structuringStep e (renderedText e)))"
  let ?pre = "snd (snd (structuringStep e (renderedText e)))"
  let ?fs = "formattingStep e (snapshot e) ?sd ?pre"
  from main_formatting_call [OF assms(1)]
  have acc: "configAccepted e" and tot: "totalActivity (snapshot e) \<noteq> 0"
    and c: "command = theCommand (env_config e)" and ops: "opts = llmOptions e ?sd ?pre"
    by simp_all
  from assms(2) have failed: "(\<exists>err. formattingOutcome e ?sd ?pre = Inl err)
      \<or> formattingOutcome e ?sd ?pre = Inr []"
    by (auto simp: formattingOutcome_exec c ops)
  note f = formattingStep_failed [OF failed, of "snapshot e"]
  have "trace ?fs \<noteq> []"
    using formattingStep_calls [of e "snapshot e" ?sd ?pre] by auto
  then have "last (trace (main e)) = last (trace ?fs)"
    by (simp add: main_pipeline(1) [OF acc tot])
  with f show ?thesis
    by (simp add: main_pipeline [OF acc tot] structuringStep_no_later_calls)
qed

text \<open>
  C6. In a run in which the formatting command was called and threw (an exit status
  other than 0, a time-out, any error of the call), or returned nothing but white
  space, the exit code is 1, the last line logged is an error line, and no delivery
  POST is in the trace.
\<close>

theorem formatting_failure_is_fatal:
  assumes "ExecSync command opts \<in> set (trace (main e))"
    and "(\<exists>err. env_execSync e command opts = Inl err)
         \<or> (\<exists>out. env_execSync e command opts = Inr out \<and> env_trim e out = [])"
  shows "exitCode (main e) = 1
     \<and> (\<exists>msg. last (trace (main e)) = Log (''ERROR: '' @ msg))
     \<and> filter isDelivery (trace (main e)) = []"
  using assms by (rule main_formatting_failed)

theorem formatting_failure_is_fatal_witness:
  "ExecSync ''claude -p -'' (llmOptions failingEnv (renderedText failingEnv) False)
     \<in> set (trace (main failingEnv))
   \<and> env_execSync failingEnv ''claude -p -'' (llmOptions failingEnv (renderedText failingEnv) False)
       = Inl ''Command failed: claude -p -''
   \<and> exitCode (main failingEnv) = 1
   \<and> filter isDelivery (trace (main failingEnv)) = []"
proof -
  have tot: "totalActivity (snapshot failingEnv) \<noteq> 0"
    by (simp add: example_snapshots example_activity)
  have deg: "\<not> truthy (env_apiKey failingEnv) \<or> (\<exists>err. structuringOutcome failingEnv = Inl err)
           \<or> structuringOutcome failingEnv = Inr []"
    by (simp add: truthy_def failingEnv_def exampleEnv_def)
  have call: "ExecSync ''claude -p -'' (llmOptions failingEnv (renderedText failingEnv) False)
     \<in> set (trace (main failingEnv))"
    using main_degraded_call [OF example_accepted(3) tot deg] by (simp add: example_command)
  have thrown: "env_execSync failingEnv ''claude -p -''
       (llmOptions failingEnv (renderedText failingEnv) False) = Inl ''Command failed: claude -p -''"
    by (simp add: failingEnv_def exampleEnv_def)
  then have "(\<exists>err. env_execSync failingEnv ''claude -p -''
         (llmOptions failingEnv (renderedText failingEnv) False) = Inl err)
         \<or> (\<exists>out. env_execSync failingEnv ''claude -p -''
         (llmOptions failingEnv (renderedText failingEnv) False) = Inr out
           \<and> env_trim failingEnv out = [])"
    by blast
  from formatting_failure_is_fatal [OF call this] call thrown show ?thesis by simp
qed

subsection \<open>No activity\<close>

text \<open>
  C7. A run that has a snapshot (the configuration was accepted) whose eight sequences
  hold nothing in total logs that no activity was found, which is no error line, and
  exits with code 0; it calls neither stage and posts nothing.
\<close>

theorem no_activity_exits_cleanly:
  assumes "configAccepted e" and "totalActivity (snapshot e) = 0"
  shows "main e = \<lparr>trace = [Log ''No activity found. Skipping summary.''], exitCode = 0\<rparr>
     \<and> exitCode (main e) = 0
     \<and> filter isStructuringCall (trace (main e)) = []
     \<and> filter isFormattingCall (trace (main e)) = []
     \<and> filter isDelivery (trace (main e)) = []"
  by (simp add: main_stops(2) [OF assms] isStructuringCall_def isFormattingCall_def isDelivery_def)

theorem no_activity_exits_cleanly_witness:
  "configAccepted quietEnv
   \<and> totalActivity (snapshot quietEnv) = 0
   \<and> main quietEnv = \<lparr>trace = [Log ''No activity found. Skipping summary.''], exitCode = 0\<rparr>"
proof -
  have tot: "totalActivity (snapshot quietEnv) = 0"
    by (simp add: snapshot_def quietEnv_def exampleEnv_def exampleConfig_def quietGithub_def
        collectGitData_def allRepos_def str_split_def noActivity_def listed_def
        totalActivity_def)
  from no_activity_exits_cleanly [OF example_accepted(5) tot] example_accepted(5) tot
  show ?thesis by simp
qed

subsection \<open>Time limits\<close>

lemma postToSlack_fetch:
  "Fetch url init \<in> set (trace (postToSlack e summary)) \<Longrightarrow> init = slackRequest summary"
  by (auto simp: postToSlack_def split: sum.splits if_splits)

lemma formattingStep_fetch:
  assumes "Fetch url init \<in> set (trace (formattingStep e d sd pre))"
  shows "init_signal init = None"
proof (cases "formattingOutcome e sd pre")
  case (Inl err)
  with assms show ?thesis by (simp add: formattingStep_outcome)
next
  case (Inr summary)
  with assms have "Fetch url init \<in> set (trace (postToSlack e summary))"
    by (auto simp: formattingStep_outcome split: if_splits)
  from postToSlack_fetch [OF this] show ?thesis by (simp add: slackRequest_def)
qed

lemma main_fetch_signal:
  assumes "Fetch url init \<in> set (trace (main e))"
  shows "init_signal init = None"
proof -
  have acc: "configAccepted e"
    using assms main_stops(1) [of e] by (cases "configAccepted e") auto
  have tot: "totalActivity (snapshot e) \<noteq> 0"
    using assms acc main_stops(2) [of e] by (cases "totalActivity (snapshot e) = 0") auto
  from assms consider "Fetch url init \<in> set (fst (structuringStep e (renderedText e)))"
    | "Fetch url init \<in> set (trace (formattingStep e (snapshot e)
                 (fst (snd (structuringStep e (renderedText e))))
                 (snd (snd (structuringStep e (renderedText e))))))"
    by (auto simp: main_pipeline(1) [OF acc tot])
  then show ?thesis
  proof cases
    case 1
    from structuringStep_actions [OF this] show ?thesis by (auto simp: geminiRequest_def)
  next
    case 2
    then show ?thesis by (rule formattingStep_fetch)
  qed
qed

lemma structuringOutcome_rejected:
  "env_fetch e openrouterUrl
      (geminiRequest (orElse (env_apiKey e) [])
         (geminiPrompt (ticketPattern (env_config e)) (renderedText e) (authorMap (env_config e))))
     = Inl err \<Longrightarrow> structuringOutcome e = Inl err"
  by (simp add: structuringOutcome_def preprocessWithGemini_def Let_def)

text \<open>
  C8, as the program has it. The formatting call is given the time limit of 120000
  ms, and a command that outlasts it makes \<^verbatim>\<open>execSync\<close> throw, which ends the run
  with code 1 and no delivery. No \<^verbatim>\<open>fetch\<close> of a run is given a signal: the
  structuring call has no time limit of its own. When that request is rejected, for
  whatever reason, the formatting stage is called with the rendered text unchanged.
\<close>

theorem capability_time_limits:
  "(ExecSync command opts \<in> set (trace (main e)) \<longrightarrow> opt_timeout opts = 120000)
   \<and> (ExecSync command opts \<in> set (trace (main e)) \<and> env_execSync e = nodeExecSync spawn
        \<and> outlasts (spawn command (opt_input opts)) 120000
       \<longrightarrow> exitCode (main e) = 1 \<and> filter isDelivery (trace (main e)) = [])
   \<and> (Fetch url init \<in> set (trace (main e)) \<longrightarrow> init_signal init = None)
   \<and> (configAccepted e \<and> totalActivity (snapshot e) \<noteq> 0 \<and> truthy (env_apiKey e)
        \<and> env_fetch e openrouterUrl
             (geminiRequest (orElse (env_apiKey e) [])
                (geminiPrompt (ticketPattern (env_config e)) (renderedText e)
                   (authorMap (env_config e)))) = Inl err
       \<longrightarrow> filter isFormattingCall (trace (main e))
             = [ExecSync (theCommand (env_config e)) (llmOptions e (renderedText e) False)])"
proof -
  have limit: "opt_timeout opts = 120000" if "ExecSync command opts \<in> set (trace (main e))"
    using main_formatting_call [OF that] by (simp add: llmOptions_def)
  have fatal: "exitCode (main e) = 1 \<and> filter isDelivery (trace (main e)) = []"
    if call: "ExecSync command opts \<in> set (trace (main e))"
      and node: "env_execSync e = nodeExecSync spawn"
      and long: "outlasts (spawn command (opt_input opts)) 120000"
  proof -
    have "env_execSync e command opts = Inl ''spawnSync /bin/sh ETIMEDOUT''"
      using long by (simp add: node nodeExecSync_def limit [OF call])
    then have "(\<exists>err. env_execSync e command opts = Inl err)
         \<or> (\<exists>out. env_execSync e command opts = Inr out \<and> env_trim e out = [])"
      by blast
    from main_formatting_failed [OF call this] show ?thesis by simp
  qed
  have fallback: "filter isFormattingCall (trace (main e))
             = [ExecSync (theCommand (env_config e)) (llmOptions e (renderedText e) False)]"
    if "configAccepted e" "totalActivity (snapshot e) \<noteq> 0"
      "env_fetch e openrouterUrl
             (geminiRequest (orElse (env_apiKey e) [])
                (geminiPrompt (ticketPattern (env_config e)) (renderedText e)
                   (authorMap (env_config e)))) = Inl err"
  proof -
    from structuringOutcome_rejected [OF that(3)]
    have "\<not> truthy (env_apiKey e) \<or> (\<exists>err. structuringOutcome e = Inl err)
           \<or> structuringOutcome e = Inr []"
      by blast
    from main_degraded(1) [OF that(1,2) this] show ?thesis .
  qed
  from limit fatal fallback main_fetch_signal show ?thesis by blast
qed

text \<open>
  C8 as stated fails for the structuring call: in the run below the request to the
  structuring service is made, and it carries no signal, hence no time limit.
\<close>

theorem capability_time_limits_counterexample:
  "Fetch openrouterUrl
      (geminiRequest ''sk-test''
         (geminiPrompt [] (renderedText degradedEnv) [(''alice'', ''Alice A.'')]))
     \<in> set (trace (main degradedEnv))
   \<and> init_signal
        (geminiRequest ''sk-test''
           (geminiPrompt [] (renderedText degradedEnv) [(''alice'', ''Alice A.'')])) = None"
proof -
  have tot: "totalActivity (snapshot degradedEnv) \<noteq> 0"
    by (simp add: example_snapshots example_activity)
  have "Fetch openrouterUrl
      (geminiRequest ''sk-test''
         (geminiPrompt [] (renderedText degradedEnv) [(''alice'', ''Alice A.'')]))
     \<in> set (fst (structuringStep degradedEnv (renderedText degradedEnv)))"
    by (simp add: structuringStep_def preprocessWithGemini_def Let_def truthy_def orElse_def
        degradedEnv_def exampleEnv_def exampleConfig_def rejectedFetch_def)
  then show ?thesis
    by (simp add: main_pipeline(1) [OF example_accepted(2) tot] geminiRequest_def)
qed

theorem capability_time_limits_witness:
  "ExecSync ''claude -p -'' (llmOptions timeoutEnv (renderedText timeoutEnv) False)
     \<in> set (trace (main timeoutEnv))
   \<and> opt_timeout (llmOptions timeoutEnv (renderedText timeoutEnv) False) = 120000
   \<and> env_execSync timeoutEnv = nodeExecSync hangingProcess
   \<and> outlasts (hangingProcess ''claude -p -''
         (opt_input (llmOptions timeoutEnv (renderedText timeoutEnv) False))) 120000
   \<and> exitCode (main timeoutEnv) = 1
   \<and> filter isDelivery (trace (main timeoutEnv)) = []
   \<and> truthy (env_apiKey timeoutEnv)
   \<and> env_fetch timeoutEnv openrouterUrl
        (geminiRequest (orElse (env_apiKey timeoutEnv) [])
           (geminiPrompt (ticketPattern (env_config timeoutEnv)) (renderedText timeoutEnv)
              (authorMap (env_config timeoutEnv)))) = Inl ''fetch failed''
   \<and> filter isFormattingCall (trace (main timeoutEnv))
       = [ExecSync ''claude -p -'' (llmOptions timeoutEnv (renderedText timeoutEnv) False)]"
proof -
  have tot: "totalActivity (snapshot timeoutEnv) \<noteq> 0"
    by (simp add: example_snapshots example_activity)
  have deg: "\<not> truthy (env_apiKey timeoutEnv) \<or> (\<exists>err. structuringOutcome timeoutEnv = Inl err)
           \<or> structuringOutcome timeoutEnv = Inr []"
    by (simp add: degraded_outcome)
  have call: "ExecSync ''claude -p -'' (llmOptions timeoutEnv (renderedText timeoutEnv) False)
     \<in> set (trace (main timeoutEnv))"
    using main_degraded_call [OF example_accepted(4) tot deg] by (simp add: example_command)
  have node: "env_execSync timeoutEnv = nodeExecSync hangingProcess"
    by (simp add: timeoutEnv_def)
  have long: "outlasts (hangingProcess ''claude -p -''
         (opt_input (llmOptions timeoutEnv (renderedText timeoutEnv) False))) 120000"
    by (simp add: outlasts_def hangingProcess_def)
  have key: "truthy (env_apiKey timeoutEnv)"
    by (simp add: truthy_def timeoutEnv_def degradedEnv_def exampleEnv_def)
  have rejected: "env_fetch timeoutEnv openrouterUrl
        (geminiRequest (orElse (env_apiKey timeoutEnv) [])
           (geminiPrompt (ticketPattern (env_config timeoutEnv)) (renderedText timeoutEnv)
              (authorMap (env_config timeoutEnv)))) = Inl ''fetch failed''"
    by (simp add: timeoutEnv_def degradedEnv_def exampleEnv_def rejectedFetch_def)
  from capability_time_limits [where e = timeoutEnv and command = "''claude -p -''"
      and opts = "llmOptions timeoutEnv (renderedText timeoutEnv) False"
      and spawn = hangingProcess and err = "''fetch failed''"]
    call node long key rejected example_accepted(4) tot
  show ?thesis by (simp add: example_command)
qed

end
